theory Spec2Isabelle
  imports Complex_Main
begin

section \<open>Implied-volatility calculator (Mako\_Global/MakoInterviewPack/solution.py)\<close>

subsection \<open>Numbers\<close>

text \<open>
  A double as the source computes with it: a real number, negative zero, an infinity or
  \<open>nan\<close>. \<open>Fin 0\<close> is positive zero. Arithmetic is exact: rounding, overflow and underflow
  are not modelled; the special values follow IEEE 754, which numpy and Python's floats
  share.
\<close>

datatype fl = Fin real | NZero | PInf | NInf | NaN

fun is_nan :: "fl \<Rightarrow> bool" where
  "is_nan NaN = True"
| "is_nan _ = False"

fun is_inf :: "fl \<Rightarrow> bool" where
  "is_inf PInf = True"
| "is_inf NInf = True"
| "is_inf _ = False"

fun is_fin :: "fl \<Rightarrow> bool" where
  "is_fin (Fin x) = True"
| "is_fin NZero = True"
| "is_fin _ = False"

text \<open>The value of a finite double, and the sign bit.\<close>

fun mag :: "fl \<Rightarrow> real" where
  "mag (Fin x) = x"
| "mag _ = 0"

fun sign_bit :: "fl \<Rightarrow> bool" where
  "sign_bit (Fin x) = (x < 0)"
| "sign_bit NZero = True"
| "sign_bit NInf = True"
| "sign_bit _ = False"

definition zero_of :: "bool \<Rightarrow> fl" where
  "zero_of neg = (if neg then NZero else Fin 0)"

definition inf_of :: "bool \<Rightarrow> fl" where
  "inf_of neg = (if neg then NInf else PInf)"

definition is_zero :: "fl \<Rightarrow> bool" where
  "is_zero a = (is_fin a \<and> mag a = 0)"

fun fneg :: "fl \<Rightarrow> fl" where
  "fneg (Fin x) = (if x = 0 then NZero else Fin (- x))"
| "fneg NZero = Fin 0"
| "fneg PInf = NInf"
| "fneg NInf = PInf"
| "fneg NaN = NaN"

fun fabs :: "fl \<Rightarrow> fl" where
  "fabs (Fin x) = Fin \<bar>x\<bar>"
| "fabs NZero = Fin 0"
| "fabs PInf = PInf"
| "fabs NInf = PInf"
| "fabs NaN = NaN"

text \<open>
  A sum that is zero is positive zero unless both terms are negative zero; opposite
  infinities add to \<open>nan\<close>.
\<close>

definition fadd :: "fl \<Rightarrow> fl \<Rightarrow> fl" where
  "fadd a b =
     (if is_nan a \<or> is_nan b then NaN
      else if is_inf a then (if is_inf b \<and> a \<noteq> b then NaN else a)
      else if is_inf b then b
      else if a = NZero \<and> b = NZero then NZero
      else Fin (mag a + mag b))"

definition fsub :: "fl \<Rightarrow> fl \<Rightarrow> fl" where
  "fsub a b = fadd a (fneg b)"

text \<open>The sign of a product or a quotient is the exclusive or of the signs.\<close>

definition fmul :: "fl \<Rightarrow> fl \<Rightarrow> fl" where
  "fmul a b =
     (if is_nan a \<or> is_nan b then NaN
      else if is_inf a \<or> is_inf b then
        (if is_zero a \<or> is_zero b then NaN else inf_of (sign_bit a \<noteq> sign_bit b))
      else if mag a * mag b = 0 then zero_of (sign_bit a \<noteq> sign_bit b)
      else Fin (mag a * mag b))"

text \<open>
  Division as numpy does it: \<open>0/0\<close> and \<open>inf/inf\<close> are \<open>nan\<close>, a non-zero number over
  zero is an infinity.
\<close>

definition fdiv :: "fl \<Rightarrow> fl \<Rightarrow> fl" where
  "fdiv a b =
     (if is_nan a \<or> is_nan b then NaN
      else if is_inf a then (if is_inf b then NaN else inf_of (sign_bit a \<noteq> sign_bit b))
      else if is_inf b then zero_of (sign_bit a \<noteq> sign_bit b)
      else if mag b = 0 then
        (if mag a = 0 then NaN else inf_of (sign_bit a \<noteq> sign_bit b))
      else if mag a = 0 then zero_of (sign_bit a \<noteq> sign_bit b)
      else Fin (mag a / mag b))"

text \<open>Comparisons: every comparison with \<open>nan\<close> is false; the two zeros are equal.\<close>

definition fle :: "fl \<Rightarrow> fl \<Rightarrow> bool" where
  "fle a b =
     (\<not> is_nan a \<and> \<not> is_nan b \<and>
      (a = NInf \<or> b = PInf \<or> (is_fin a \<and> is_fin b \<and> mag a \<le> mag b)))"

definition flt :: "fl \<Rightarrow> fl \<Rightarrow> bool" where
  "flt a b = (fle a b \<and> \<not> fle b a)"

definition feq :: "fl \<Rightarrow> fl \<Rightarrow> bool" where
  "feq a b = (fle a b \<and> fle b a)"

text \<open>\<open>x ** 2\<close> and \<open>x ** 2.0\<close>.\<close>

fun fpow2 :: "fl \<Rightarrow> fl" where
  "fpow2 (Fin x) = Fin (x ^ 2)"
| "fpow2 NZero = Fin 0"
| "fpow2 PInf = PInf"
| "fpow2 NInf = PInf"
| "fpow2 NaN = NaN"

text \<open>\<open>np.exp\<close>, \<open>np.log\<close> and \<open>np.sqrt\<close>: outside their domain they return \<open>nan\<close> or an
  infinity (with a warning), and the computation goes on.\<close>

fun fexp :: "fl \<Rightarrow> fl" where
  "fexp (Fin x) = Fin (exp x)"
| "fexp NZero = Fin 1"
| "fexp PInf = PInf"
| "fexp NInf = Fin 0"
| "fexp NaN = NaN"

fun flog :: "fl \<Rightarrow> fl" where
  "flog (Fin x) = (if x > 0 then Fin (ln x) else if x = 0 then NInf else NaN)"
| "flog NZero = NInf"
| "flog PInf = PInf"
| "flog NInf = NaN"
| "flog NaN = NaN"

fun fsqrt :: "fl \<Rightarrow> fl" where
  "fsqrt (Fin x) = (if x \<ge> 0 then Fin (sqrt x) else NaN)"
| "fsqrt NZero = NZero"
| "fsqrt PInf = PInf"
| "fsqrt NInf = NaN"
| "fsqrt NaN = NaN"

text \<open>
  \<open>scipy.stats.norm\<close> is an external library: \<open>norm.pdf\<close> is the standard normal
  density and \<open>norm.cdf\<close> its distribution function, here as the power series of
  \<open>1/2 + \<integral>\<^sub>0\<^sup>x pdf\<close>.
\<close>

definition norm_pdf :: "real \<Rightarrow> real" where
  "norm_pdf x = exp (- (x ^ 2) / 2) / sqrt (2 * pi)"

definition norm_cdf :: "real \<Rightarrow> real" where
  "norm_cdf x =
     1 / 2 + (\<Sum>n. (- 1) ^ n * x ^ (2 * n + 1) / (fact n * 2 ^ n * real (2 * n + 1))) / sqrt (2 * pi)"

fun fcdf :: "fl \<Rightarrow> fl" where
  "fcdf (Fin x) = Fin (norm_cdf x)"
| "fcdf NZero = Fin (norm_cdf 0)"
| "fcdf PInf = Fin 1"
| "fcdf NInf = Fin 0"
| "fcdf NaN = NaN"

fun fpdf :: "fl \<Rightarrow> fl" where
  "fpdf (Fin x) = Fin (norm_pdf x)"
| "fpdf NZero = Fin (norm_pdf 0)"
| "fpdf PInf = Fin 0"
| "fpdf NInf = Fin 0"
| "fpdf NaN = NaN"

text \<open>
  A number of the program is a Python number (\<open>int\<close> or \<open>float\<close>, an \<open>int\<close> taken as the
  \<open>float\<close> of the same value) or a numpy \<open>float64\<close>. An operation on two Python numbers
  is Python's; as soon as one operand is a \<open>float64\<close> it is numpy's and the result is a
  \<open>float64\<close>. The two differ in the division by zero: Python raises
  \<open>ZeroDivisionError\<close> (here \<open>ZeroDivision\<close>), numpy returns \<open>nan\<close> or an infinity and
  the computation goes on.
\<close>

datatype number = Py fl | Np fl

datatype failure =
    ZeroDivision
  | NameError string
  | KeyError string
  | UnboundLocalError
  | TypeError

fun val :: "number \<Rightarrow> fl" where
  "val (Py x) = x"
| "val (Np x) = x"

definition pyf :: "real \<Rightarrow> number" where
  "pyf x = Py (Fin x)"

definition lift1 :: "(fl \<Rightarrow> fl) \<Rightarrow> number \<Rightarrow> number" where
  "lift1 g a = (case a of Py x \<Rightarrow> Py (g x) | Np x \<Rightarrow> Np (g x))"

definition lift2 :: "(fl \<Rightarrow> fl \<Rightarrow> fl) \<Rightarrow> number \<Rightarrow> number \<Rightarrow> number" where
  "lift2 g a b =
     (case a of
        Py x \<Rightarrow> (case b of Py y \<Rightarrow> Py (g x y) | Np y \<Rightarrow> Np (g x y))
      | Np x \<Rightarrow> Np (g x (val b)))"

definition nadd :: "number \<Rightarrow> number \<Rightarrow> number" where "nadd = lift2 fadd"
definition nsub :: "number \<Rightarrow> number \<Rightarrow> number" where "nsub = lift2 fsub"
definition nmul :: "number \<Rightarrow> number \<Rightarrow> number" where "nmul = lift2 fmul"
definition nneg :: "number \<Rightarrow> number" where "nneg = lift1 fneg"
definition nabs :: "number \<Rightarrow> number" where "nabs = lift1 fabs"
definition npow2 :: "number \<Rightarrow> number" where "npow2 = lift1 fpow2"

definition ndiv :: "number \<Rightarrow> number \<Rightarrow> failure + number" where
  "ndiv a b =
     (case a of
        Py x \<Rightarrow>
          (case b of
             Py y \<Rightarrow> if is_zero y then Inl ZeroDivision else Inr (Py (fdiv x y))
           | Np y \<Rightarrow> Inr (Np (fdiv x y)))
      | Np x \<Rightarrow> Inr (Np (fdiv x (val b))))"

definition nle :: "number \<Rightarrow> number \<Rightarrow> bool" where "nle a b = fle (val a) (val b)"
definition nlt :: "number \<Rightarrow> number \<Rightarrow> bool" where "nlt a b = flt (val a) (val b)"
definition nge :: "number \<Rightarrow> number \<Rightarrow> bool" where "nge a b = fle (val b) (val a)"
definition ngt :: "number \<Rightarrow> number \<Rightarrow> bool" where "ngt a b = flt (val b) (val a)"
definition neq :: "number \<Rightarrow> number \<Rightarrow> bool" where "neq a b = feq (val a) (val b)"

definition np_exp :: "number \<Rightarrow> number" where "np_exp a = Np (fexp (val a))"
definition np_log :: "number \<Rightarrow> number" where "np_log a = Np (flog (val a))"
definition np_sqrt :: "number \<Rightarrow> number" where "np_sqrt a = Np (fsqrt (val a))"
definition norm_cdf_np :: "number \<Rightarrow> number" where "norm_cdf_np a = Np (fcdf (val a))"
definition norm_pdf_np :: "number \<Rightarrow> number" where "norm_pdf_np a = Np (fpdf (val a))"

definition andThen :: "failure + 'a \<Rightarrow> ('a \<Rightarrow> failure + 'b) \<Rightarrow> failure + 'b" where
  "andThen m k = (case m of Inl e \<Rightarrow> Inl e | Inr v \<Rightarrow> k v)"

subsection \<open>RootFinder\<close>

datatype rootFindMethod = dekkers | bisection

record RootFinder =
  accuracy :: real
  rootFindMethod :: "rootFindMethod option"

definition RootFinder_init :: "real \<Rightarrow> RootFinder" where
  "RootFinder_init acc = \<lparr>accuracy = acc, rootFindMethod = None\<rparr>"

definition getRootFindMethod :: "RootFinder \<Rightarrow> rootFindMethod option" where
  "getRootFindMethod self = rootFindMethod self"

definition setRootFindMethod :: "RootFinder \<Rightarrow> string \<Rightarrow> failure + RootFinder" where
  "setRootFindMethod self rootFinderName =
     (case map_of [(''dekkers'', dekkers), (''bisection'', bisection)] rootFinderName of
        Some m \<Rightarrow> Inr (self\<lparr>rootFindMethod := Some m\<rparr>)
      | None \<Rightarrow> Inl (NameError ''root finder method not available''))"

text \<open>
  The loop of \<open>__bisectionMethod\<close>. The local \<open>c\<close> is unbound until the body has run
  once (\<open>None\<close>); \<open>return c\<close> after the loop raises \<open>UnboundLocalError\<close> then.
  The objective is a pure function, so the second call \<open>f(c)\<close> of the body returns what
  the first returned. A run that never leaves the loop is the value \<open>None\<close>. The
  sentinel \<open>np.nan\<close> is a Python float.
\<close>

partial_function (option) bisection_loop ::
  "real \<Rightarrow> (number \<Rightarrow> failure + number) \<Rightarrow> number \<Rightarrow> number \<Rightarrow> number option
     \<Rightarrow> (failure + number) option"
where
  "bisection_loop acc f a b c =
     (if ngt (nabs (nsub b a)) (pyf acc) then
        (case f (nmul (pyf 0.5) (nadd a b)) of
           Inl e \<Rightarrow> Some (Inl e)
         | Inr fc \<Rightarrow>
             if neq fc (pyf 0) then Some (Inr (nmul (pyf 0.5) (nadd a b)))
             else (case f a of
                     Inl e \<Rightarrow> Some (Inl e)
                   | Inr fa \<Rightarrow>
                       if ngt (nmul fa fc) (pyf 0)
                       then bisection_loop acc f (nmul (pyf 0.5) (nadd a b)) b
                              (Some (nmul (pyf 0.5) (nadd a b)))
                       else bisection_loop acc f a (nmul (pyf 0.5) (nadd a b))
                              (Some (nmul (pyf 0.5) (nadd a b)))))
      else (case c of
              None \<Rightarrow> Some (Inl UnboundLocalError)
            | Some cv \<Rightarrow> Some (Inr cv)))"

definition bisectionMethod ::
  "real \<Rightarrow> (number \<Rightarrow> failure + number) \<Rightarrow> number \<Rightarrow> number \<Rightarrow> (failure + number) option"
where
  "bisectionMethod acc f a b =
     (case f a of
        Inl e \<Rightarrow> Some (Inl e)
      | Inr fa \<Rightarrow>
          (case f b of
             Inl e \<Rightarrow> Some (Inl e)
           | Inr fb \<Rightarrow>
               if ngt (nmul fa fb) (pyf 0) then Some (Inr (Py NaN))
               else bisection_loop acc f a b None))"

text \<open>
  The six locals \<open>(a, fa, b, fb, c, fc)\<close> of \<open>__dekkersMethod\<close> and one pass through
  the body of its loop, in the order of the source: the reset of the contrapoint, the
  swap, and the step. The quotient \<open>p/q\<close> is Python's division when \<open>p\<close> and \<open>q\<close> are
  Python numbers and numpy's when the objective returns \<open>float64\<close>.
\<close>

type_synonym dekkers_state = "number \<times> number \<times> number \<times> number \<times> number \<times> number"

fun dekkers_reset :: "dekkers_state \<Rightarrow> dekkers_state" where
  "dekkers_reset (a, fa, b, fb, c, fc) =
     (if ngt (nmul fb fc) (pyf 0) then (a, fa, b, fb, a, fa) else (a, fa, b, fb, c, fc))"

fun dekkers_swap :: "dekkers_state \<Rightarrow> dekkers_state" where
  "dekkers_swap (a, fa, b, fb, c, fc) =
     (if nlt (nabs fc) (nabs fb) then (b, fb, c, fc, b, fb) else (a, fa, b, fb, c, fc))"

fun dekkers_update ::
  "(number \<Rightarrow> failure + number) \<Rightarrow> dekkers_state \<Rightarrow> failure + dekkers_state"
where
  "dekkers_update f (a, fa, b, fb, c, fc) =
     (let m = nmul (pyf 0.5) (nadd b c);
          p0 = nmul (nsub b a) fb;
          q = (if nge p0 (pyf 0) then nsub fa fb else nsub fb fa);
          p = (if nge p0 (pyf 0) then p0 else nneg p0)
      in if nle p (nmul (nsub m b) q)
         then andThen (ndiv p q) (\<lambda>t.
              andThen (f (nadd b t)) (\<lambda>fb'. Inr (b, fb, nadd b t, fb', c, fc)))
         else andThen (f m) (\<lambda>fb'. Inr (b, fb, m, fb', c, fc)))"

definition dekkers_body ::
  "(number \<Rightarrow> failure + number) \<Rightarrow> dekkers_state \<Rightarrow> failure + dekkers_state"
where
  "dekkers_body f s = dekkers_update f (dekkers_swap (dekkers_reset s))"

partial_function (option) dekkers_loop ::
  "real \<Rightarrow> (number \<Rightarrow> failure + number) \<Rightarrow> dekkers_state \<Rightarrow> (failure + number) option"
where
  "dekkers_loop acc f s =
     (case s of (a, fa, b, fb, c, fc) \<Rightarrow>
        if ngt (nabs (nsub b a)) (pyf acc) then
          (case dekkers_body f s of
             Inl e \<Rightarrow> Some (Inl e)
           | Inr s' \<Rightarrow> dekkers_loop acc f s')
        else Some (Inr b))"

text \<open>
  In \<open>__dekkersMethod\<close> the values \<open>f(a)\<close>, \<open>f(b)\<close> of the sign test are computed again for
  \<open>fa\<close>, \<open>fb\<close>; the objective is pure, so they are bound once.
\<close>

definition dekkersMethod ::
  "real \<Rightarrow> (number \<Rightarrow> failure + number) \<Rightarrow> number \<Rightarrow> number \<Rightarrow> (failure + number) option"
where
  "dekkersMethod acc f a b =
     (case f a of
        Inl e \<Rightarrow> Some (Inl e)
      | Inr fa \<Rightarrow>
          (case f b of
             Inl e \<Rightarrow> Some (Inl e)
           | Inr fb \<Rightarrow>
               if ngt (nmul fa fb) (pyf 0) then Some (Inr (Py NaN))
               else dekkers_loop acc f (a, fa, b, fb, a, fa)))"

text \<open>Calling the bound method stored in a RootFinder; \<open>a=0\<close>, \<open>b=100\<close> are its defaults.\<close>

definition call_method ::
  "RootFinder \<Rightarrow> rootFindMethod \<Rightarrow> (number \<Rightarrow> failure + number) \<Rightarrow> number \<Rightarrow> number
     \<Rightarrow> (failure + number) option"
where
  "call_method self m f lo hi =
     (case m of
        dekkers \<Rightarrow> dekkersMethod (accuracy self) f lo hi
      | bisection \<Rightarrow> bisectionMethod (accuracy self) f lo hi)"

subsection \<open>Option, Stock, Future\<close>

text \<open>
  An object of class \<open>Stock\<close> or \<open>Future\<close>: the attributes that \<open>Option.__init__\<close>
  sets, and the class of the object, which selects the overriding price methods. The
  numeric attributes are finite Python floats, given by their values (the script at the
  end of the file builds its objects from the cells of a pandas row instead, which are
  numpy scalars). The parity offset is a \<open>float64\<close> (it is computed with \<open>np.exp\<close>),
  finite as well, and also stored by its value (lemma \<open>offset_numbers\<close> below).
\<close>

datatype product = Stock | Future

record Option_obj =
  product :: product
  V_mkt :: real
  X :: real
  K :: real
  tau :: real
  r :: real
  OptionType :: string
  ModelType :: string
  PutCallParityOffset :: "real option"

definition Option_init ::
  "product \<Rightarrow> real \<Rightarrow> real \<Rightarrow> real \<Rightarrow> real \<Rightarrow> real \<Rightarrow> string \<Rightarrow> string \<Rightarrow> Option_obj"
where
  "Option_init cl v_mkt x k days rate optionType modelType =
     \<lparr>product = cl, V_mkt = v_mkt, X = x, K = k, tau = days / 365, r = rate,
      OptionType = optionType, ModelType = modelType, PutCallParityOffset = None\<rparr>"

definition getOptionType :: "Option_obj \<Rightarrow> string" where
  "getOptionType self = OptionType self"

definition getModelType :: "Option_obj \<Rightarrow> string" where
  "getModelType self = ModelType self"

definition getPutCallParityOffset :: "Option_obj \<Rightarrow> real option" where
  "getPutCallParityOffset self = PutCallParityOffset self"

definition setPutCallParityOffset :: "Option_obj \<Rightarrow> real \<Rightarrow> Option_obj" where
  "setPutCallParityOffset self v = self\<lparr>PutCallParityOffset := Some v\<rparr>"

text \<open>
  \<open>Stock.__init__\<close> and \<open>Future.__init__\<close>. The offset is computed from the
  constructor's argument \<open>tau\<close>, the day count (here \<open>days\<close>), not from \<open>self.tau\<close>.
\<close>

definition Stock_init ::
  "real \<Rightarrow> real \<Rightarrow> real \<Rightarrow> real \<Rightarrow> real \<Rightarrow> string \<Rightarrow> string \<Rightarrow> Option_obj"
where
  "Stock_init v_mkt x k days rate optionType modelType =
     setPutCallParityOffset (Option_init Stock v_mkt x k days rate optionType modelType)
       (k * exp (- rate * days) - x)"

definition Future_init ::
  "real \<Rightarrow> real \<Rightarrow> real \<Rightarrow> real \<Rightarrow> real \<Rightarrow> string \<Rightarrow> string \<Rightarrow> Option_obj"
where
  "Future_init v_mkt x k days rate optionType modelType =
     setPutCallParityOffset (Option_init Future v_mkt x k days rate optionType modelType)
       ((k - x) * exp (- rate * days))"

text \<open>The factory: both objects are built, then the dictionary is indexed.\<close>

definition getProduct ::
  "string \<Rightarrow> real \<Rightarrow> real \<Rightarrow> real \<Rightarrow> real \<Rightarrow> real \<Rightarrow> string \<Rightarrow> string \<Rightarrow> failure + Option_obj"
where
  "getProduct name v_mkt x k days rate optionType modelType =
     (case map_of [(''Stock'', Stock_init v_mkt x k days rate optionType modelType),
                   (''Future'', Future_init v_mkt x k days rate optionType modelType)] name of
        Some obj \<Rightarrow> Inr obj
      | None \<Rightarrow> Inl (KeyError name))"

text \<open>
  The call price methods of \<open>Stock\<close>. \<open>self.X / self.K\<close> and \<open>sigma**2 / self.r\<close> divide
  by a Python float; every other division is by a \<open>float64\<close>.
\<close>

definition Stock_callOptionPriceBlackScholes :: "Option_obj \<Rightarrow> number \<Rightarrow> failure + number" where
  "Stock_callOptionPriceBlackScholes self sigma =
     andThen (ndiv (pyf (X self)) (pyf (K self))) (\<lambda>xk.
     andThen (ndiv (nadd (np_log xk)
                      (nmul (nadd (pyf (r self)) (nmul (pyf 0.5) (npow2 sigma))) (pyf (tau self))))
                   (nmul sigma (np_sqrt (pyf (tau self))))) (\<lambda>d1.
       let d2 = nsub d1 (nmul sigma (np_sqrt (pyf (tau self))))
       in Inr (nsub (nmul (pyf (X self)) (norm_cdf_np d1))
                    (nmul (nmul (np_exp (nmul (nneg (pyf (r self))) (pyf (tau self))))
                                (pyf (K self)))
                          (norm_cdf_np d2)))))"

definition Stock_callOptionPriceBachelier :: "Option_obj \<Rightarrow> number \<Rightarrow> failure + number" where
  "Stock_callOptionPriceBachelier self sigma =
     (let K_star = nmul (pyf (K self)) (np_exp (nmul (nneg (pyf (r self))) (pyf (tau self))))
      in andThen (ndiv (npow2 sigma) (pyf (r self))) (\<lambda>s2r.
         let v_tT = nmul (nmul (pyf 0.5) s2r)
                      (nsub (pyf 1)
                         (np_exp (nmul (nmul (nneg (pyf 2)) (pyf (r self))) (pyf (tau self)))))
         in andThen (ndiv (nsub (pyf (X self)) K_star) v_tT) (\<lambda>d.
              Inr (nadd (nmul (nsub (pyf (X self)) K_star) (norm_cdf_np d))
                        (nmul v_tT (norm_pdf_np d))))))"

text \<open>The call price methods of \<open>Future\<close>.\<close>

definition Future_callOptionPriceBlackScholes :: "Option_obj \<Rightarrow> number \<Rightarrow> failure + number" where
  "Future_callOptionPriceBlackScholes self sigma =
     andThen (ndiv (pyf (X self)) (pyf (K self))) (\<lambda>xk.
     andThen (ndiv (nadd (np_log xk) (nmul (nmul (pyf 0.5) (npow2 sigma)) (pyf (tau self))))
                   (nmul sigma (np_sqrt (pyf (tau self))))) (\<lambda>d1.
       let d2 = nsub d1 (nmul sigma (np_sqrt (pyf (tau self))))
       in Inr (nmul (np_exp (nmul (nneg (pyf (r self))) (pyf (tau self))))
                    (nsub (nmul (pyf (X self)) (norm_cdf_np d1))
                          (nmul (pyf (K self)) (norm_cdf_np d2))))))"

definition Future_callOptionPriceBachelier :: "Option_obj \<Rightarrow> number \<Rightarrow> failure + number" where
  "Future_callOptionPriceBachelier self sigma =
     andThen (ndiv (nsub (pyf (X self)) (pyf (K self))) (nmul sigma (np_sqrt (pyf (tau self))))) (\<lambda>d.
       Inr (nadd (nmul (nsub (pyf (X self)) (pyf (K self))) (norm_cdf_np d))
                 (nmul (nmul sigma (np_sqrt (pyf (tau self)))) (norm_pdf_np d))))"

text \<open>Method lookup on the object's class.\<close>

definition callOptionPriceBlackScholes :: "Option_obj \<Rightarrow> number \<Rightarrow> failure + number" where
  "callOptionPriceBlackScholes self sigma =
     (case product self of
        Stock \<Rightarrow> Stock_callOptionPriceBlackScholes self sigma
      | Future \<Rightarrow> Future_callOptionPriceBlackScholes self sigma)"

definition callOptionPriceBachelier :: "Option_obj \<Rightarrow> number \<Rightarrow> failure + number" where
  "callOptionPriceBachelier self sigma =
     (case product self of
        Stock \<Rightarrow> Stock_callOptionPriceBachelier self sigma
      | Future \<Rightarrow> Future_callOptionPriceBachelier self sigma)"

text \<open>
  The put price methods, one per class and model as in the source: the call price of the
  object (looked up on its class), then the sum with \<open>getPutCallParityOffset()\<close>, which
  is a \<open>TypeError\<close> while the offset is \<open>None\<close>.
\<close>

definition add_offset :: "Option_obj \<Rightarrow> number \<Rightarrow> failure + number" where
  "add_offset self V_call =
     (case getPutCallParityOffset self of
        None \<Rightarrow> Inl TypeError
      | Some off \<Rightarrow> Inr (nadd V_call (Np (Fin off))))"

definition Stock_putOptionPriceBlackScholes :: "Option_obj \<Rightarrow> number \<Rightarrow> failure + number" where
  "Stock_putOptionPriceBlackScholes self sigma =
     andThen (callOptionPriceBlackScholes self sigma) (add_offset self)"

definition Stock_putOptionPriceBachelier :: "Option_obj \<Rightarrow> number \<Rightarrow> failure + number" where
  "Stock_putOptionPriceBachelier self sigma =
     andThen (callOptionPriceBachelier self sigma) (\<lambda>V_call. add_offset self V_call)"

definition Future_putOptionPriceBlackScholes :: "Option_obj \<Rightarrow> number \<Rightarrow> failure + number" where
  "Future_putOptionPriceBlackScholes self sigma =
     andThen (callOptionPriceBlackScholes self sigma) (\<lambda>V_call. add_offset self V_call)"

definition Future_putOptionPriceBachelier :: "Option_obj \<Rightarrow> number \<Rightarrow> failure + number" where
  "Future_putOptionPriceBachelier self sigma =
     andThen (callOptionPriceBachelier self sigma) (add_offset self)"

definition putOptionPriceBlackScholes :: "Option_obj \<Rightarrow> number \<Rightarrow> failure + number" where
  "putOptionPriceBlackScholes self sigma =
     (case product self of
        Stock \<Rightarrow> Stock_putOptionPriceBlackScholes self sigma
      | Future \<Rightarrow> Future_putOptionPriceBlackScholes self sigma)"

definition putOptionPriceBachelier :: "Option_obj \<Rightarrow> number \<Rightarrow> failure + number" where
  "putOptionPriceBachelier self sigma =
     (case product self of
        Stock \<Rightarrow> Stock_putOptionPriceBachelier self sigma
      | Future \<Rightarrow> Future_putOptionPriceBachelier self sigma)"

definition getOptionPrice :: "Option_obj \<Rightarrow> failure + (number \<Rightarrow> failure + number)" where
  "getOptionPrice self =
     (if getModelType self = ''BlackScholes'' then
        (if getOptionType self = ''Call'' then Inr (callOptionPriceBlackScholes self)
         else if getOptionType self = ''Put'' then Inr (putOptionPriceBlackScholes self)
         else Inl (NameError ''Option Type not recognized''))
      else if getModelType self = ''Bachelier'' then
        (if getOptionType self = ''Call'' then Inr (callOptionPriceBachelier self)
         else if getOptionType self = ''Put'' then Inr (putOptionPriceBachelier self)
         else Inl (NameError ''Option Type not recognized''))
      else Inl (NameError ''Model Type not supported''))"

text \<open>
  \<open>impliedVol\<close>: the lambda \<open>modelMisPrice\<close> calls \<open>getOptionPrice()\<close> each time it is
  evaluated; the stored method is called with the objective alone, so with its default
  bracket, the ints 0 and 100. Calling \<open>None\<close> (no method set) is a \<open>TypeError\<close>.
\<close>

definition modelMisPrice :: "Option_obj \<Rightarrow> number \<Rightarrow> failure + number" where
  "modelMisPrice self x =
     andThen (getOptionPrice self) (\<lambda>price.
     andThen (price x) (\<lambda>v. Inr (nsub v (pyf (V_mkt self)))))"

definition impliedVol :: "Option_obj \<Rightarrow> RootFinder \<Rightarrow> (failure + number) option" where
  "impliedVol self rootFind =
     (case getRootFindMethod rootFind of
        None \<Rightarrow> Some (Inl TypeError)
      | Some m \<Rightarrow> call_method rootFind m (modelMisPrice self) (pyf 0) (pyf 100))"

text \<open>
  The solver as the specification words it (section 4.4): the bracket is an argument,
  \<open>solveImpliedVol(option, rootFinder, bracketLow, bracketHigh)\<close> delegates to the
  root finder on \<open>g\<close> over that bracket. It is compared with \<open>impliedVol\<close> below.
\<close>

definition solveImpliedVol ::
  "Option_obj \<Rightarrow> RootFinder \<Rightarrow> number \<Rightarrow> number \<Rightarrow> (failure + number) option"
where
  "solveImpliedVol opt rootFinder bracketLow bracketHigh =
     (case getRootFindMethod rootFinder of
        None \<Rightarrow> Some (Inl TypeError)
      | Some m \<Rightarrow> call_method rootFinder m (modelMisPrice opt) bracketLow bracketHigh)"

text \<open>A number that is finite, and its value.\<close>

definition nfin :: "number \<Rightarrow> bool" where
  "nfin a = is_fin (val a)"

definition nval :: "number \<Rightarrow> real" where
  "nval a = mag (val a)"

section \<open>Basic facts\<close>

lemmas fl_defs = fadd_def fsub_def fmul_def fdiv_def fle_def flt_def feq_def zero_of_def
  inf_of_def is_zero_def

lemmas num_defs = pyf_def nadd_def nsub_def nmul_def nneg_def nabs_def npow2_def lift1_def
  lift2_def ndiv_def nle_def nlt_def nge_def ngt_def neq_def np_exp_def np_log_def np_sqrt_def
  norm_cdf_np_def norm_pdf_np_def

lemma andThen_Inr [simp]: "andThen (Inr v) k = k v"
  by (simp add: andThen_def)

lemma andThen_Inl [simp]: "andThen (Inl e) k = Inl e"
  by (simp add: andThen_def)

text \<open>
  Finite numbers: on them the operations of the program are those of the reals, a
  quotient with a divisor other than zero included; a numpy quotient with a zero divisor
  is not finite, and neither is a sum with a term that is not finite.
\<close>

lemma nfin_pyf [simp]: "nfin (pyf x)" "nval (pyf x) = x"
  by (simp_all add: nfin_def nval_def pyf_def)

lemma is_fin_cases: "is_fin a \<Longrightarrow> a = NZero \<or> (\<exists>x. a = Fin x)"
  by (cases a) simp_all

lemma fin_add:
  "is_fin a \<Longrightarrow> is_fin b \<Longrightarrow> is_fin (fadd a b) \<and> mag (fadd a b) = mag a + mag b"
  by (cases a; cases b) (simp_all add: fadd_def)

lemma fin_neg: "is_fin a \<Longrightarrow> is_fin (fneg a) \<and> mag (fneg a) = - mag a"
  by (cases a) simp_all

lemma fin_sub:
  "is_fin a \<Longrightarrow> is_fin b \<Longrightarrow> is_fin (fsub a b) \<and> mag (fsub a b) = mag a - mag b"
  using fin_add [of a "fneg b"] fin_neg [of b] by (simp add: fsub_def)

lemma fin_mul:
  "is_fin a \<Longrightarrow> is_fin b \<Longrightarrow> is_fin (fmul a b) \<and> mag (fmul a b) = mag a * mag b"
  by (cases a; cases b) (simp_all add: fmul_def zero_of_def)

lemma fin_abs: "is_fin a \<Longrightarrow> is_fin (fabs a) \<and> mag (fabs a) = \<bar>mag a\<bar>"
  by (cases a) simp_all

lemma fin_le: "is_fin a \<Longrightarrow> is_fin b \<Longrightarrow> fle a b = (mag a \<le> mag b)"
  by (cases a; cases b) (simp_all add: fle_def)

lemma fin_lt: "is_fin a \<Longrightarrow> is_fin b \<Longrightarrow> flt a b = (mag a < mag b)"
  by (auto simp: flt_def fin_le)

lemma fin_eq: "is_fin a \<Longrightarrow> is_fin b \<Longrightarrow> feq a b = (mag a = mag b)"
  by (auto simp: feq_def fin_le)

lemma fin_div:
  "is_fin a \<Longrightarrow> is_fin b \<Longrightarrow> mag b \<noteq> 0 \<Longrightarrow> is_fin (fdiv a b) \<and> mag (fdiv a b) = mag a / mag b"
  by (cases a; cases b) (simp_all add: fdiv_def zero_of_def)

lemma val_ops:
  "val (nadd a b) = fadd (val a) (val b)" "val (nsub a b) = fsub (val a) (val b)"
  "val (nmul a b) = fmul (val a) (val b)" "val (nneg a) = fneg (val a)"
  "val (nabs a) = fabs (val a)" "val (pyf x) = Fin x"
  by (cases a; cases b; simp add: num_defs)+

lemma nfin_add: "nfin a \<Longrightarrow> nfin b \<Longrightarrow> nfin (nadd a b) \<and> nval (nadd a b) = nval a + nval b"
  by (simp add: nfin_def nval_def val_ops fin_add)

lemma nfin_sub: "nfin a \<Longrightarrow> nfin b \<Longrightarrow> nfin (nsub a b) \<and> nval (nsub a b) = nval a - nval b"
  by (simp add: nfin_def nval_def val_ops fin_sub)

lemma nfin_mul: "nfin a \<Longrightarrow> nfin b \<Longrightarrow> nfin (nmul a b) \<and> nval (nmul a b) = nval a * nval b"
  by (simp add: nfin_def nval_def val_ops fin_mul)

lemma nfin_neg: "nfin a \<Longrightarrow> nfin (nneg a) \<and> nval (nneg a) = - nval a"
  by (simp add: nfin_def nval_def val_ops fin_neg)

lemma nfin_abs: "nfin a \<Longrightarrow> nfin (nabs a) \<and> nval (nabs a) = \<bar>nval a\<bar>"
  by (simp add: nfin_def nval_def val_ops fin_abs)

lemma nfin_cmp:
  assumes "nfin a" and "nfin b"
  shows "nle a b = (nval a \<le> nval b)" "nlt a b = (nval a < nval b)"
    "nge a b = (nval b \<le> nval a)" "ngt a b = (nval b < nval a)"
    "neq a b = (nval a = nval b)"
  using assms
  by (simp_all add: nfin_def nval_def nle_def nlt_def nge_def ngt_def neq_def fin_le fin_lt fin_eq)

lemma nfin_div:
  assumes "nfin a" and "nfin b" and "nval b \<noteq> 0"
  shows "\<exists>t. ndiv a b = Inr t \<and> nfin t \<and> nval t = nval a / nval b"
  using assms fin_div [of "val a" "val b"]
  by (cases a; cases b) (simp_all add: nfin_def nval_def ndiv_def is_zero_def)

lemma ndiv_zero_not_finite:
  assumes "nfin a" and "nfin b" and "nval b = 0" and "ndiv a b = Inr t"
  shows "\<not> nfin t"
proof -
  have "\<not> is_fin (fdiv x y)" if "is_fin x" "is_fin y" "mag y = 0" for x y
    using that by (cases x; cases y) (simp_all add: fdiv_def inf_of_def)
  then show ?thesis
    using assms by (cases a; cases b) (auto simp: nfin_def nval_def ndiv_def is_zero_def split: if_splits)
qed

lemma fadd_not_finite: "is_fin a \<Longrightarrow> \<not> is_fin b \<Longrightarrow> \<not> is_fin (fadd a b)"
  by (cases a; cases b) (simp_all add: fadd_def)

lemma nadd_not_finite: "nfin a \<Longrightarrow> \<not> nfin b \<Longrightarrow> \<not> nfin (nadd a b)"
  using fadd_not_finite [of "val a" "val b"] by (simp add: nfin_def val_ops)

lemma nfin_half: "nfin a \<Longrightarrow> nfin b \<Longrightarrow>
    nfin (nmul (pyf 0.5) (nadd a b)) \<and> nval (nmul (pyf 0.5) (nadd a b)) = (nval a + nval b) / 2"
  using nfin_add [of a b] nfin_mul [of "pyf 0.5" "nadd a b"] by simp

lemma zero_test: "nfin y \<Longrightarrow> neq y (pyf 0) = (nval y = 0)"
  using nfin_cmp(5) [of y "pyf 0"] by simp

lemma sign_test: "nfin x \<Longrightarrow> nfin y \<Longrightarrow> ngt (nmul x y) (pyf 0) = (nval x * nval y > 0)"
  using nfin_mul [of x y] nfin_cmp(4) [of "nmul x y" "pyf 0"] by simp

lemma midpoint_py: "nmul (pyf 0.5) (nadd (pyf lo) (pyf hi)) = pyf ((lo + hi) / 2)"
  by (simp add: num_defs fl_defs)

lemma continue_py: "ngt (nabs (nsub (pyf hi) (pyf lo))) (pyf acc) = (acc < \<bar>hi - lo\<bar>)"
  by (auto simp: num_defs fl_defs)

lemma nan_product: "\<not> ngt (nmul (Np NaN) y) (pyf 0)"
  by (cases y) (simp_all add: num_defs fl_defs)

lemma ndiv_Inl: "ndiv a b = Inl e \<Longrightarrow> e = ZeroDivision"
  by (auto simp: ndiv_def split: number.splits if_splits)

text \<open>
  The objects the constructors build. The offset expressions of \<open>Stock.__init__\<close> and
  \<open>Future.__init__\<close>, evaluated on the numbers of the program, are the \<open>float64\<close> of
  the real value that the record stores.
\<close>

lemma init_simps:
  "product (Stock_init v x k d rt ot mt) = Stock"
  "product (Future_init v x k d rt ot mt) = Future"
  "getPutCallParityOffset (Stock_init v x k d rt ot mt) = Some (k * exp (- rt * d) - x)"
  "getPutCallParityOffset (Future_init v x k d rt ot mt) = Some ((k - x) * exp (- rt * d))"
  "tau (Stock_init v x k d rt ot mt) = d / 365"
  "tau (Future_init v x k d rt ot mt) = d / 365"
  by (simp_all add: Stock_init_def Future_init_def Option_init_def
        setPutCallParityOffset_def getPutCallParityOffset_def)

lemma field_simps_init:
  "X (Stock_init v x k d rt ot mt) = x" "K (Stock_init v x k d rt ot mt) = k"
  "r (Stock_init v x k d rt ot mt) = rt" "V_mkt (Stock_init v x k d rt ot mt) = v"
  "X (Future_init v x k d rt ot mt) = x" "K (Future_init v x k d rt ot mt) = k"
  "r (Future_init v x k d rt ot mt) = rt" "V_mkt (Future_init v x k d rt ot mt) = v"
  "getOptionType (Stock_init v x k d rt ot mt) = ot" "getModelType (Stock_init v x k d rt ot mt) = mt"
  "getOptionType (Future_init v x k d rt ot mt) = ot" "getModelType (Future_init v x k d rt ot mt) = mt"
  by (simp_all add: Stock_init_def Future_init_def Option_init_def
        setPutCallParityOffset_def getOptionType_def getModelType_def)

lemma offset_numbers:
  "nsub (nmul (pyf k) (np_exp (nmul (nneg (pyf rt)) (pyf d)))) (pyf x)
     = Np (Fin (k * exp (- rt * d) - x))"
  "nmul (nsub (pyf k) (pyf x)) (np_exp (nmul (nneg (pyf rt)) (pyf d)))
     = Np (Fin ((k - x) * exp (- rt * d)))"
proof -
  have e: "np_exp (nmul (nneg (pyf rt)) (pyf d)) = Np (Fin (exp (- rt * d)))"
    by (simp add: num_defs fl_defs)
  show "nsub (nmul (pyf k) (np_exp (nmul (nneg (pyf rt)) (pyf d)))) (pyf x)
     = Np (Fin (k * exp (- rt * d) - x))"
    unfolding e by (simp add: num_defs fl_defs)
  show "nmul (nsub (pyf k) (pyf x)) (np_exp (nmul (nneg (pyf rt)) (pyf d)))
     = Np (Fin ((k - x) * exp (- rt * d)))"
    unfolding e by (simp add: num_defs fl_defs)
qed

lemma getProduct_simps:
  "getProduct ''Stock'' v x k d rt ot mt = Inr (Stock_init v x k d rt ot mt)"
  "getProduct ''Future'' v x k d rt ot mt = Inr (Future_init v x k d rt ot mt)"
  "name \<noteq> ''Stock'' \<Longrightarrow> name \<noteq> ''Future'' \<Longrightarrow> getProduct name v x k d rt ot mt = Inl (KeyError name)"
  by (simp_all add: getProduct_def)

text \<open>
  The price methods: a put price is the call price plus the stored offset; a call price
  method fails only with \<open>ZeroDivisionError\<close>; the Future/Bachelier call price at a
  \<open>sigma\<close> other than 0 and a positive time to expiry is the value of its formula.
\<close>

lemma norm_pdf_pos: "0 < norm_pdf x"
  by (simp add: norm_pdf_def)

lemma put_from_call:
  "getPutCallParityOffset self = Some off \<Longrightarrow>
     putOptionPriceBlackScholes self sigma =
       andThen (callOptionPriceBlackScholes self sigma) (\<lambda>c. Inr (nadd c (Np (Fin off)))) \<and>
     putOptionPriceBachelier self sigma =
       andThen (callOptionPriceBachelier self sigma) (\<lambda>c. Inr (nadd c (Np (Fin off))))"
  by (cases "product self")
     (simp_all add: putOptionPriceBlackScholes_def putOptionPriceBachelier_def
        Stock_putOptionPriceBlackScholes_def Stock_putOptionPriceBachelier_def
        Future_putOptionPriceBlackScholes_def Future_putOptionPriceBachelier_def
        add_offset_def andThen_def split: sum.split)

lemma nadd_offset_finite:
  "nfin c \<Longrightarrow> nfin (nadd c (Np (Fin off))) \<and> nval (nadd c (Np (Fin off))) = nval c + off"
  by (cases c; cases "val c") (auto simp: nfin_def nval_def num_defs fl_defs)

lemma call_failures:
  "callOptionPriceBlackScholes self sigma = Inl e \<Longrightarrow> e = ZeroDivision"
  "callOptionPriceBachelier self sigma = Inl e \<Longrightarrow> e = ZeroDivision"
  by (cases "product self";
      auto simp: callOptionPriceBlackScholes_def callOptionPriceBachelier_def
        Stock_callOptionPriceBlackScholes_def Future_callOptionPriceBlackScholes_def
        Stock_callOptionPriceBachelier_def Future_callOptionPriceBachelier_def
        andThen_def Let_def split: sum.splits dest: ndiv_Inl)+

lemma future_bachelier_value:
  assumes "product self = Future" and "0 < tau self" and "s \<noteq> 0"
  shows "callOptionPriceBachelier self (pyf s) =
          Inr (Np (Fin ((X self - K self) * norm_cdf ((X self - K self) / (s * sqrt (tau self)))
               + s * sqrt (tau self) * norm_pdf ((X self - K self) / (s * sqrt (tau self))))))"
proof -
  define t where "t = sqrt (tau self)"
  have t: "0 < t" using assms(2) by (simp add: t_def)
  have st: "np_sqrt (pyf (tau self)) = Np (Fin t)"
    using assms(2) by (simp add: num_defs t_def)
  have den: "nmul (pyf s) (Np (Fin t)) = Np (Fin (s * t))"
    using t assms(3) by (simp add: num_defs fl_defs)
  have num: "nsub (pyf (X self)) (pyf (K self)) = Py (Fin (X self - K self))"
    by (simp add: num_defs fl_defs)
  define w where "w = X self - K self"
  have d: "ndiv (Py (Fin w)) (Np (Fin (s * t)))
      = Inr (Np (if w = 0 then zero_of (s * t < 0) else Fin (w / (s * t))))"
    using t assms(3) by (simp add: num_defs fl_defs)
  have c: "fcdf (if w = 0 then zero_of (s * t < 0) else Fin (w / (s * t))) = Fin (norm_cdf (w / (s * t)))"
    and p: "fpdf (if w = 0 then zero_of (s * t < 0) else Fin (w / (s * t))) = Fin (norm_pdf (w / (s * t)))"
    by (simp_all add: fl_defs)
  have pp: "s * t * norm_pdf (w / (s * t)) \<noteq> 0"
    using t assms(3) norm_pdf_pos [of "w / (s * t)"] by simp
  have sum: "nadd (nmul (Py (Fin w)) (Np (Fin (norm_cdf (w / (s * t))))))
                  (nmul (Np (Fin (s * t))) (Np (Fin (norm_pdf (w / (s * t))))))
        = Np (Fin (w * norm_cdf (w / (s * t)) + s * t * norm_pdf (w / (s * t))))"
    using pp by (simp add: num_defs fl_defs)
  show ?thesis
    using assms(1)
    by (simp add: callOptionPriceBachelier_def Future_callOptionPriceBachelier_def st den num
          w_def [symmetric] d norm_cdf_np_def norm_pdf_np_def c p sum t_def [symmetric])
qed

section \<open>The parity offset\<close>

text \<open>
  C1. The claim: the offset of a Stock option is \<open>K * exp(-r * tau) - X\<close> with \<open>tau\<close>
  the stored time to expiry in years, and that of a Future option \<open>(K - X) * exp(-r * tau)\<close>.
  The constructors compute it from the day count instead: for spot 100, strike 100, 365
  days and rate 5 percent the stored \<open>tau\<close> is 1, the stored offset of the Stock is
  \<open>100 * exp(-18.25) - 100\<close>, and the claimed value \<open>100 * exp(-0.05) - 100\<close> differs
  from it; likewise for the Future with strike 110.
\<close>

theorem parityOffset_uses_day_count:
  "tau (Stock_init 1 100 100 365 (1 / 20) ''Put'' ''BlackScholes'') = 1
   \<and> getPutCallParityOffset (Stock_init 1 100 100 365 (1 / 20) ''Put'' ''BlackScholes'')
       = Some (100 * exp (- (1 / 20) * 365) - 100)
   \<and> getPutCallParityOffset (Stock_init 1 100 100 365 (1 / 20) ''Put'' ''BlackScholes'')
       \<noteq> Some (K (Stock_init 1 100 100 365 (1 / 20) ''Put'' ''BlackScholes'')
                * exp (- r (Stock_init 1 100 100 365 (1 / 20) ''Put'' ''BlackScholes'')
                         * tau (Stock_init 1 100 100 365 (1 / 20) ''Put'' ''BlackScholes''))
                - X (Stock_init 1 100 100 365 (1 / 20) ''Put'' ''BlackScholes''))
   \<and> tau (Future_init 1 100 110 365 (1 / 20) ''Put'' ''BlackScholes'') = 1
   \<and> getPutCallParityOffset (Future_init 1 100 110 365 (1 / 20) ''Put'' ''BlackScholes'')
       = Some (10 * exp (- (1 / 20) * 365))
   \<and> getPutCallParityOffset (Future_init 1 100 110 365 (1 / 20) ''Put'' ''BlackScholes'')
       \<noteq> Some ((K (Future_init 1 100 110 365 (1 / 20) ''Put'' ''BlackScholes'')
                 - X (Future_init 1 100 110 365 (1 / 20) ''Put'' ''BlackScholes''))
                * exp (- r (Future_init 1 100 110 365 (1 / 20) ''Put'' ''BlackScholes'')
                         * tau (Future_init 1 100 110 365 (1 / 20) ''Put'' ''BlackScholes'')))"
  by (simp add: init_simps field_simps_init)

section \<open>Put-call parity\<close>

text \<open>
  C3. For an object built by \<open>Stock\<close> or \<open>Future\<close>, under both models and at every
  \<open>sigma\<close> at which the call price is a finite number, the put price is a finite number
  too and put minus call is the stored parity offset, whatever \<open>sigma\<close> is.
\<close>

theorem put_call_parity:
  assumes "self = Stock_init v x k d rt ot mt \<or> self = Future_init v x k d rt ot mt"
  shows "\<exists>off. getPutCallParityOffset self = Some off \<and>
           (\<forall>sigma c. callOptionPriceBlackScholes self sigma = Inr c \<and> nfin c \<longrightarrow>
              (\<exists>p. putOptionPriceBlackScholes self sigma = Inr p \<and> nfin p \<and> nval p - nval c = off)) \<and>
           (\<forall>sigma c. callOptionPriceBachelier self sigma = Inr c \<and> nfin c \<longrightarrow>
              (\<exists>p. putOptionPriceBachelier self sigma = Inr p \<and> nfin p \<and> nval p - nval c = off))"
proof -
  obtain off where off: "getPutCallParityOffset self = Some off"
    using assms init_simps(3,4) by blast
  show ?thesis
    using put_from_call [OF off] off nadd_offset_finite [of _ off] by simp
qed

text \<open>
  A Future put under Bachelier, spot 100, strike 110, 365 days, rate 5 percent,
  \<open>sigma = 1\<close>: the offset is \<open>10 * exp(-18.25)\<close>, not zero, and the put price is the
  call price plus that offset.
\<close>

theorem put_call_parity_witness:
  "callOptionPriceBachelier (Future_init 1 100 110 365 (1 / 20) ''Put'' ''Bachelier'') (pyf 1)
     = Inr (Np (Fin (- 10 * norm_cdf (- 10) + norm_pdf (- 10))))
   \<and> nfin (Np (Fin (- 10 * norm_cdf (- 10) + norm_pdf (- 10))))
   \<and> getPutCallParityOffset (Future_init 1 100 110 365 (1 / 20) ''Put'' ''Bachelier'')
       = Some (10 * exp (- (1 / 20) * 365))
   \<and> 10 * exp (- (1 / 20) * 365) \<noteq> (0 :: real)
   \<and> putOptionPriceBachelier (Future_init 1 100 110 365 (1 / 20) ''Put'' ''Bachelier'') (pyf 1)
     = Inr (Np (Fin (- 10 * norm_cdf (- 10) + norm_pdf (- 10) + 10 * exp (- (1 / 20) * 365))))
   \<and> nval (Np (Fin (- 10 * norm_cdf (- 10) + norm_pdf (- 10) + 10 * exp (- (1 / 20) * 365))))
       - nval (Np (Fin (- 10 * norm_cdf (- 10) + norm_pdf (- 10))))
     = 10 * exp (- (1 / 20) * 365)"
proof -
  let ?o = "Future_init 1 100 110 365 (1 / 20) ''Put'' ''Bachelier''"
  let ?c = "Np (Fin (- 10 * norm_cdf (- 10) + norm_pdf (- 10)))"
  have c: "callOptionPriceBachelier ?o (pyf 1) = Inr ?c"
    using future_bachelier_value [of ?o 1] by (simp add: init_simps field_simps_init)
  have f: "nfin ?c" by (simp add: nfin_def)
  have o: "getPutCallParityOffset ?o = Some (10 * exp (- (1 / 20) * 365))"
    by (simp add: init_simps)
  have p: "putOptionPriceBachelier ?o (pyf 1)
      = Inr (Np (Fin (- 10 * norm_cdf (- 10) + norm_pdf (- 10) + 10 * exp (- (1 / 20) * 365))))"
    using put_from_call [OF o, of "pyf 1"] c by (simp add: num_defs fl_defs)
  have "?o = Stock_init 1 100 110 365 (1 / 20) ''Put'' ''Bachelier''
          \<or> ?o = Future_init 1 100 110 365 (1 / 20) ''Put'' ''Bachelier''" by simp
  from put_call_parity [OF this]
  obtain off where off: "getPutCallParityOffset ?o = Some off"
    and b: "\<forall>sigma c. callOptionPriceBachelier ?o sigma = Inr c \<and> nfin c \<longrightarrow>
              (\<exists>p. putOptionPriceBachelier ?o sigma = Inr p \<and> nfin p \<and> nval p - nval c = off)"
    by blast
  from b c f obtain q where q: "putOptionPriceBachelier ?o (pyf 1) = Inr q"
    and d: "nval q - nval ?c = off"
    by blast
  have "nval (Np (Fin (- 10 * norm_cdf (- 10) + norm_pdf (- 10) + 10 * exp (- (1 / 20) * 365))))
       - nval ?c = 10 * exp (- (1 / 20) * 365)"
    using q d p off o by simp
  then show ?thesis using c f o p by simp
qed

text \<open>
  Where the call price is an infinity or \<open>nan\<close>, so is the put price, and their
  difference is \<open>nan\<close>.
\<close>

lemma nonfinite_difference:
  "\<not> nfin c \<Longrightarrow> val (nsub (nadd c (Np (Fin off))) c) = NaN"
  by (cases c; cases "val c") (simp_all add: nfin_def num_defs fl_defs)

section \<open>The root finders\<close>

text \<open>
  C4. When the objective has values of the same sign at both ends of the bracket
  (\<open>f(a) * f(b) > 0\<close>), the bisection method and Dekker's method both return \<open>np.nan\<close>:
  the run ends, and with a value, not a failure.
\<close>

theorem no_sign_change_nan:
  "f a = Inr x \<Longrightarrow> f b = Inr y \<Longrightarrow> ngt (nmul x y) (pyf 0) \<Longrightarrow>
     bisectionMethod acc f a b = Some (Inr (Py NaN)) \<and> dekkersMethod acc f a b = Some (Inr (Py NaN))"
  by (simp add: bisectionMethod_def dekkersMethod_def)

theorem no_sign_change_nan_witness:
  "(\<lambda>x. Inr (nadd x (pyf 1)) :: failure + number) (pyf 0) = Inr (pyf 1)
   \<and> (\<lambda>x. Inr (nadd x (pyf 1)) :: failure + number) (pyf 100) = Inr (pyf 101)
   \<and> ngt (nmul (pyf 1) (pyf 101)) (pyf 0)
   \<and> bisectionMethod (1 / 10 ^ 8) (\<lambda>x. Inr (nadd x (pyf 1))) (pyf 0) (pyf 100) = Some (Inr (Py NaN))
   \<and> dekkersMethod (1 / 10 ^ 8) (\<lambda>x. Inr (nadd x (pyf 1))) (pyf 0) (pyf 100) = Some (Inr (Py NaN))"
  using no_sign_change_nan [of "\<lambda>x. Inr (nadd x (pyf 1))" "pyf 0" "pyf 1" "pyf 100" "pyf 101"
      "1 / 10 ^ 8"]
  by (simp add: num_defs fl_defs)

text \<open>
  The bisection loop: leaving it, one pass, and the halving of the bracket. On a bracket
  of finite Python numbers and with a positive tolerance the method returns, whatever the
  objective is. When the objective is finite everywhere, its values at the ends of the
  bracket do not have the same sign and the bracket is wider than the tolerance, the
  result is a point where the objective is zero or an end of a bracket no wider than the
  tolerance at whose ends the objective does not have the same sign.
\<close>

lemma sign_keep: "(x::real) * y \<le> 0 \<Longrightarrow> x * z > 0 \<Longrightarrow> z * y \<le> 0"
  by (auto simp: zero_less_mult_iff mult_le_0_iff)

lemma bisection_loop_exit:
  "\<not> ngt (nabs (nsub hi lo)) (pyf acc) \<Longrightarrow>
     bisection_loop acc f lo hi c =
       (case c of None \<Rightarrow> Some (Inl UnboundLocalError) | Some cv \<Rightarrow> Some (Inr cv))"
  by (subst bisection_loop.simps) simp

lemma bisection_loop_step:
  "ngt (nabs (nsub hi lo)) (pyf acc) \<Longrightarrow>
     bisection_loop acc f lo hi c =
       (case f (nmul (pyf 0.5) (nadd lo hi)) of
           Inl e \<Rightarrow> Some (Inl e)
         | Inr fc \<Rightarrow>
             if neq fc (pyf 0) then Some (Inr (nmul (pyf 0.5) (nadd lo hi)))
             else (case f lo of
                     Inl e \<Rightarrow> Some (Inl e)
                   | Inr fa \<Rightarrow>
                       if ngt (nmul fa fc) (pyf 0)
                       then bisection_loop acc f (nmul (pyf 0.5) (nadd lo hi)) hi
                              (Some (nmul (pyf 0.5) (nadd lo hi)))
                       else bisection_loop acc f lo (nmul (pyf 0.5) (nadd lo hi))
                              (Some (nmul (pyf 0.5) (nadd lo hi)))))"
  by (subst bisection_loop.simps) simp

lemma half_width:
  "\<bar>hi - lo\<bar> \<le> 2 * w \<Longrightarrow> \<bar>hi - (lo + hi) / 2\<bar> \<le> w \<and> \<bar>(lo + hi) / 2 - lo\<bar> \<le> w" for hi lo w :: real
  by (auto simp: abs_le_iff field_simps)

lemma half_left: "\<bar>hi - lo\<bar> \<le> acc * 2 ^ Suc n \<Longrightarrow> \<bar>hi - (lo + hi) / 2\<bar> \<le> acc * 2 ^ n" for hi lo acc :: real
  using half_width [of hi lo "acc * 2 ^ n"] by simp

lemma half_right: "\<bar>hi - lo\<bar> \<le> acc * 2 ^ Suc n \<Longrightarrow> \<bar>(lo + hi) / 2 - lo\<bar> \<le> acc * 2 ^ n" for hi lo acc :: real
  using half_width [of hi lo "acc * 2 ^ n"] by simp

lemma bisection_loop_bounded:
  "0 < acc \<Longrightarrow> \<bar>hi - lo\<bar> \<le> acc * 2 ^ n \<Longrightarrow> \<exists>res. bisection_loop acc f (pyf lo) (pyf hi) c = Some res"
proof (induction n arbitrary: lo hi c)
  case 0
  then have "\<not> ngt (nabs (nsub (pyf hi) (pyf lo))) (pyf acc)" by (simp add: continue_py)
  then show ?case by (simp add: bisection_loop_exit split: option.split)
next
  case (Suc n)
  show ?case
  proof (cases "ngt (nabs (nsub (pyf hi) (pyf lo))) (pyf acc)")
    case False
    then show ?thesis by (simp add: bisection_loop_exit split: option.split)
  next
    case True
    have l: "\<exists>res. bisection_loop acc f (pyf ((lo + hi) / 2)) (pyf hi) (Some (pyf ((lo + hi) / 2))) = Some res"
      using Suc.IH [OF Suc.prems(1) half_left [OF Suc.prems(2)]] .
    have r: "\<exists>res. bisection_loop acc f (pyf lo) (pyf ((lo + hi) / 2)) (Some (pyf ((lo + hi) / 2))) = Some res"
      using Suc.IH [OF Suc.prems(1) half_right [OF Suc.prems(2)]] .
    show ?thesis
      unfolding bisection_loop_step [OF True] midpoint_py
      using l r by (simp split: sum.split)
  qed
qed

lemma pow2_bound: "0 < acc \<Longrightarrow> \<exists>n. (w::real) \<le> acc * 2 ^ n"
proof -
  assume a: "0 < acc"
  obtain n where "w / acc < 2 ^ n" using real_arch_pow [of 2 "w / acc"] by auto
  then have "w < acc * 2 ^ n" using a by (simp add: pos_divide_less_eq mult.commute)
  then show ?thesis by (intro exI [of _ n]) simp
qed

lemma bisection_terminates:
  "0 < acc \<Longrightarrow> \<exists>res. bisectionMethod acc f (pyf lo) (pyf hi) = Some res"
proof -
  assume a: "0 < acc"
  obtain n where "\<bar>hi - lo\<bar> \<le> acc * 2 ^ n" using pow2_bound [OF a] by blast
  then have "\<exists>res. bisection_loop acc f (pyf lo) (pyf hi) None = Some res"
    using bisection_loop_bounded [OF a] by blast
  then show ?thesis
    by (simp add: bisectionMethod_def split: sum.split)
qed

lemma bisection_loop_exit_sound:
  fixes g :: "real \<Rightarrow> real"
  assumes "\<not> \<bar>hi - lo\<bar> > acc" and "g lo * g hi \<le> 0" and "c = Some (pyf lo) \<or> c = Some (pyf hi)"
  shows "\<exists>m. bisection_loop acc f (pyf lo) (pyf hi) c = Some (Inr (pyf m)) \<and>
           (g m = 0 \<or> (\<exists>u v. (m = u \<or> m = v) \<and> \<bar>v - u\<bar> \<le> acc \<and> g u * g v \<le> 0))"
proof -
  have ex: "\<not> ngt (nabs (nsub (pyf hi) (pyf lo))) (pyf acc)"
    using assms(1) by (simp add: continue_py)
  have w: "\<exists>u v. (m = u \<or> m = v) \<and> \<bar>v - u\<bar> \<le> acc \<and> g u * g v \<le> 0" if "m = lo \<or> m = hi" for m
    using that assms(1,2) by (intro exI [of _ lo] exI [of _ hi]) auto
  from assms(3) show ?thesis
  proof
    assume "c = Some (pyf lo)"
    then have "bisection_loop acc f (pyf lo) (pyf hi) c = Some (Inr (pyf lo))"
      by (simp add: bisection_loop_exit [OF ex])
    then show ?thesis using w [of lo] by blast
  next
    assume "c = Some (pyf hi)"
    then have "bisection_loop acc f (pyf lo) (pyf hi) c = Some (Inr (pyf hi))"
      by (simp add: bisection_loop_exit [OF ex])
    then show ?thesis using w [of hi] by blast
  qed
qed

lemma bisection_loop_sound:
  fixes g :: "real \<Rightarrow> real"
  assumes f: "\<And>x. \<exists>y. f (pyf x) = Inr y \<and> nfin y \<and> nval y = g x"
    and "0 < acc" and "\<bar>hi - lo\<bar> \<le> acc * 2 ^ n" and "g lo * g hi \<le> 0"
    and "c = Some (pyf lo) \<or> c = Some (pyf hi) \<or> (c = None \<and> acc < \<bar>hi - lo\<bar>)"
  shows "\<exists>m. bisection_loop acc f (pyf lo) (pyf hi) c = Some (Inr (pyf m)) \<and>
           (g m = 0 \<or> (\<exists>u v. (m = u \<or> m = v) \<and> \<bar>v - u\<bar> \<le> acc \<and> g u * g v \<le> 0))"
  using assms(2-)
proof (induction n arbitrary: lo hi c)
  case 0
  then have ex: "\<not> \<bar>hi - lo\<bar> > acc" by simp
  with 0 have "c = Some (pyf lo) \<or> c = Some (pyf hi)" by auto
  then show ?case
    using ex "0.prems"(3) by (intro bisection_loop_exit_sound)
next
  case (Suc n)
  show ?case
  proof (cases "\<bar>hi - lo\<bar> > acc")
    case False
    with Suc.prems have "c = Some (pyf lo) \<or> c = Some (pyf hi)" by auto
    then show ?thesis
      using False Suc.prems(3) by (intro bisection_loop_exit_sound)
  next
    case True
    then have cont: "ngt (nabs (nsub (pyf hi) (pyf lo))) (pyf acc)"
      by (simp add: continue_py)
    define m where "m = (lo + hi) / 2"
    obtain ym where ym: "f (pyf m) = Inr ym" "nfin ym" "nval ym = g m" using f [of m] by blast
    obtain yl where yl: "f (pyf lo) = Inr yl" "nfin yl" "nval yl = g lo" using f [of lo] by blast
    have step: "bisection_loop acc f (pyf lo) (pyf hi) c =
        (if g m = 0 then Some (Inr (pyf m))
         else if g lo * g m > 0 then bisection_loop acc f (pyf m) (pyf hi) (Some (pyf m))
         else bisection_loop acc f (pyf lo) (pyf m) (Some (pyf m)))"
      unfolding bisection_loop_step [OF cont] midpoint_py m_def [symmetric]
      using ym yl by (simp add: zero_test sign_test)
    show ?thesis
    proof (cases "g m = 0")
      case z: True
      then show ?thesis using step by auto
    next
      case nz: False
      show ?thesis
      proof (cases "g lo * g m > 0")
        case left: True
        have s: "g m * g hi \<le> 0" using sign_keep [OF Suc.prems(3) left] .
        have w: "\<bar>hi - m\<bar> \<le> acc * 2 ^ n"
          unfolding m_def by (rule half_left [OF Suc.prems(2)])
        have "\<exists>k. bisection_loop acc f (pyf m) (pyf hi) (Some (pyf m)) = Some (Inr (pyf k)) \<and>
           (g k = 0 \<or> (\<exists>u v. (k = u \<or> k = v) \<and> \<bar>v - u\<bar> \<le> acc \<and> g u * g v \<le> 0))"
          by (rule Suc.IH [OF Suc.prems(1) w s]) simp
        then show ?thesis using nz left step by simp
      next
        case right: False
        then have s: "g lo * g m \<le> 0" by simp
        have w: "\<bar>m - lo\<bar> \<le> acc * 2 ^ n"
          unfolding m_def by (rule half_right [OF Suc.prems(2)])
        have "\<exists>k. bisection_loop acc f (pyf lo) (pyf m) (Some (pyf m)) = Some (Inr (pyf k)) \<and>
           (g k = 0 \<or> (\<exists>u v. (k = u \<or> k = v) \<and> \<bar>v - u\<bar> \<le> acc \<and> g u * g v \<le> 0))"
          by (rule Suc.IH [OF Suc.prems(1) w s]) simp
        then show ?thesis using nz right step by simp
      qed
    qed
  qed
qed

lemma bisectionMethod_sound:
  fixes g :: "real \<Rightarrow> real"
  assumes f: "\<And>x. \<exists>y. f (pyf x) = Inr y \<and> nfin y \<and> nval y = g x"
    and "0 < acc" and "g lo * g hi \<le> 0" and "acc < \<bar>hi - lo\<bar>"
  shows "\<exists>m. bisectionMethod acc f (pyf lo) (pyf hi) = Some (Inr (pyf m)) \<and>
           (g m = 0 \<or> (\<exists>u v. (m = u \<or> m = v) \<and> \<bar>v - u\<bar> \<le> acc \<and> g u * g v \<le> 0))"
proof -
  obtain n where n: "\<bar>hi - lo\<bar> \<le> acc * 2 ^ n" using pow2_bound [OF assms(2)] by blast
  obtain yl where yl: "f (pyf lo) = Inr yl" "nfin yl" "nval yl = g lo" using f [of lo] by blast
  obtain yh where yh: "f (pyf hi) = Inr yh" "nfin yh" "nval yh = g hi" using f [of hi] by blast
  have "\<not> ngt (nmul yl yh) (pyf 0)" using assms(3) yl yh by (simp add: sign_test)
  then have "bisectionMethod acc f (pyf lo) (pyf hi) = bisection_loop acc f (pyf lo) (pyf hi) None"
    using yl yh by (simp add: bisectionMethod_def)
  moreover have "\<exists>m. bisection_loop acc f (pyf lo) (pyf hi) None = Some (Inr (pyf m)) \<and>
           (g m = 0 \<or> (\<exists>u v. (m = u \<or> m = v) \<and> \<bar>v - u\<bar> \<le> acc \<and> g u * g v \<le> 0))"
    by (rule bisection_loop_sound [OF f assms(2) n assms(3)]) (simp add: assms(4))
  ultimately show ?thesis by simp
qed

text \<open>
  C5. The claim: on a bracket with \<open>f(a) * f(b) \<le> 0\<close> and a positive tolerance, bisection
  returns a midpoint. With the default tolerance \<open>1e-8\<close>, the objective \<open>x - 2e-9\<close> and
  the bracket \<open>[0, 5e-9]\<close> the signs differ, the bracket is already narrower than the
  tolerance, the body of the loop never runs, and \<open>return c\<close> reads an unbound local:
  the call ends in \<open>UnboundLocalError\<close>.
\<close>

theorem bisection_narrow_bracket_unbound:
  "bisectionMethod (1 / 10 ^ 8) (\<lambda>x. Inr (nsub x (pyf (2 / 10 ^ 9)))) (pyf 0) (pyf (5 / 10 ^ 9))
     = Some (Inl UnboundLocalError)"
proof -
  have "\<not> ngt (nabs (nsub (pyf (5 / 10 ^ 9)) (pyf 0))) (pyf (1 / 10 ^ 8))"
    by (simp add: num_defs fl_defs)
  moreover have "\<not> ngt (nmul (nsub (pyf 0) (pyf (2 / 10 ^ 9)))
        (nsub (pyf (5 / 10 ^ 9)) (pyf (2 / 10 ^ 9)))) (pyf 0)"
    by (simp add: num_defs fl_defs)
  ultimately show ?thesis
    by (simp add: bisectionMethod_def bisection_loop_exit)
qed

text \<open>
  Dekker's method: leaving the loop (the method returns \<open>b\<close> once \<open>|b - a| \<le> accuracy\<close>),
  one pass, and what a pass on finite numbers that completes has done. After the reset and
  the swap, \<open>b\<close> holds the smaller \<open>|f|\<close>; the new \<open>a\<close> is the old \<open>b\<close>; the new
  \<open>fb\<close> is \<open>f\<close> at the new \<open>b\<close>; and the new \<open>b\<close> is the midpoint \<open>m\<close>, or the
  secant step, which lies between \<open>b\<close> and \<open>m\<close>, when \<open>fa\<close> and \<open>fb\<close> differ, or
  not a finite number when \<open>fa = fb\<close> (the quotient of the secant step is \<open>0/0\<close> on
  \<open>float64\<close> values).
\<close>

lemma dekkers_loop_exit:
  "\<not> ngt (nabs (nsub b a)) (pyf acc) \<Longrightarrow> dekkers_loop acc f (a, fa, b, fb, c, fc) = Some (Inr b)"
  by (subst dekkers_loop.simps) simp

lemma dekkers_loop_step:
  "ngt (nabs (nsub b a)) (pyf acc) \<Longrightarrow>
     dekkers_loop acc f (a, fa, b, fb, c, fc) =
       (case dekkers_body f (a, fa, b, fb, c, fc) of
          Inl e \<Rightarrow> Some (Inl e)
        | Inr s' \<Rightarrow> dekkers_loop acc f s')"
  by (subst dekkers_loop.simps) simp

lemma dekkers_reset_swap_finite:
  assumes "nfin a" "nfin fa" "nfin b" "nfin fb" "nfin c" "nfin fc"
    and "dekkers_swap (dekkers_reset (a, fa, b, fb, c, fc)) = (a1, fa1, b1, fb1, c1, fc1)"
  shows "nfin a1 \<and> nfin fa1 \<and> nfin b1 \<and> nfin fb1 \<and> nfin c1 \<and> nfin fc1
         \<and> \<bar>nval fb1\<bar> \<le> \<bar>nval fc1\<bar>"
proof -
  have sm: "nlt (nabs u) (nabs w) = (\<bar>nval u\<bar> < \<bar>nval w\<bar>)" if "nfin u" "nfin w" for u w
    using that nfin_abs [of u] nfin_abs [of w] nfin_cmp(2) [of "nabs u" "nabs w"] by simp
  show ?thesis
  proof (cases "ngt (nmul fb fc) (pyf 0)")
    case True
    then show ?thesis
      using assms sm [of fa fb] by (auto split: if_splits)
  next
    case False
    then show ?thesis
      using assms sm [of fc fb] by (auto split: if_splits)
  qed
qed

lemma secant_between:
  fixes p q b m :: real
  assumes "0 \<le> p" and "p \<le> (m - b) * q" and "q \<noteq> 0"
  shows "min b m \<le> b + p / q \<and> b + p / q \<le> max b m"
proof (cases "0 < q")
  case True
  then have "0 \<le> p / q" using assms(1) by simp
  moreover have "p / q \<le> m - b" using assms(2) True by (simp add: pos_divide_le_eq)
  ultimately show ?thesis by auto
next
  case False
  then have q: "q < 0" using assms(3) by simp
  then have "p / q \<le> 0" using assms(1) by (simp add: divide_nonneg_neg)
  moreover have "m - b \<le> p / q" using assms(2) q by (simp add: neg_le_divide_eq)
  ultimately show ?thesis by auto
qed

lemma dekkers_update_performs:
  assumes fin: "nfin a1" "nfin fa1" "nfin b1" "nfin fb1" "nfin c1"
    and res: "dekkers_update f (a1, fa1, b1, fb1, c1, fc1) = Inr (a', fa', b', fb', c', fc')"
  shows "a' = b1 \<and> fa' = fb1 \<and> c' = c1 \<and> fc' = fc1 \<and> f b' = Inr fb' \<and>
         (b' = nmul (pyf 0.5) (nadd b1 c1) \<or>
          (nval fa1 \<noteq> nval fb1 \<and> nfin b'
           \<and> nval b' = nval b1 - nval fb1 * (nval b1 - nval a1) / (nval fb1 - nval fa1)
           \<and> min (nval b1) ((nval b1 + nval c1) / 2) \<le> nval b'
           \<and> nval b' \<le> max (nval b1) ((nval b1 + nval c1) / 2)) \<or>
          (nval fa1 = nval fb1 \<and> \<not> nfin b'))"
proof -
  define m where "m = nmul (pyf 0.5) (nadd b1 c1)"
  define p0 where "p0 = nmul (nsub b1 a1) fb1"
  define q where "q = (if nge p0 (pyf 0) then nsub fa1 fb1 else nsub fb1 fa1)"
  define p where "p = (if nge p0 (pyf 0) then p0 else nneg p0)"
  have u: "dekkers_update f (a1, fa1, b1, fb1, c1, fc1) =
     (if nle p (nmul (nsub m b1) q)
         then andThen (ndiv p q) (\<lambda>t.
              andThen (f (nadd b1 t)) (\<lambda>fb'. Inr (b1, fb1, nadd b1 t, fb', c1, fc1)))
         else andThen (f m) (\<lambda>fb'. Inr (b1, fb1, m, fb', c1, fc1)))"
    by (simp add: m_def p0_def q_def p_def Let_def)
  have fm: "nfin m" "nval m = (nval b1 + nval c1) / 2"
    using nfin_half [OF fin(3,5)] by (simp_all add: m_def)
  have fp0: "nfin p0" "nval p0 = (nval b1 - nval a1) * nval fb1"
    using nfin_sub [OF fin(3,1)] nfin_mul [of "nsub b1 a1" fb1] fin(4) by (simp_all add: p0_def)
  have sg: "nge p0 (pyf 0) = (0 \<le> nval p0)"
    using nfin_cmp(3) [of p0 "pyf 0"] fp0(1) by simp
  have fq: "nfin q" "nval q = (if 0 \<le> nval p0 then nval fa1 - nval fb1 else nval fb1 - nval fa1)"
    using nfin_sub [OF fin(2,4)] nfin_sub [OF fin(4,2)] by (simp_all add: q_def sg)
  have fp: "nfin p" "nval p = (if 0 \<le> nval p0 then nval p0 else - nval p0)"
    using fp0(1) nfin_neg [OF fp0(1)] by (simp_all add: p_def sg)
  have pos: "0 \<le> nval p" by (simp add: fp(2))
  have fr: "nfin (nmul (nsub m b1) q)" "nval (nmul (nsub m b1) q) = (nval m - nval b1) * nval q"
    using nfin_sub [OF fm(1) fin(3)] nfin_mul [of "nsub m b1" q] fq(1) by simp_all
  have test: "nle p (nmul (nsub m b1) q) = (nval p \<le> (nval m - nval b1) * nval q)"
    using nfin_cmp(1) [OF fp(1) fr(1)] fr(2) by simp
  have flip: "x / (u - w) = - x / (w - u)" for x u w :: real
    by (metis minus_diff_eq minus_divide_divide)
  have "nval p / nval q = nval p0 / (nval fa1 - nval fb1)"
    using flip [of "- nval p0" "nval fb1" "nval fa1"] by (simp add: fp(2) fq(2))
  then have pq: "nval p / nval q = - (nval fb1 * (nval b1 - nval a1)) / (nval fb1 - nval fa1)"
    using flip [of "nval p0" "nval fa1" "nval fb1"] by (simp add: fp0(2) mult.commute)
  show ?thesis
  proof (cases "nle p (nmul (nsub m b1) q)")
    case False
    with res u have e: "andThen (f m) (\<lambda>fb'. Inr (b1, fb1, m, fb', c1, fc1))
        = Inr (a', fa', b', fb', c', fc')" by simp
    then obtain y where y: "f m = Inr y" by (cases "f m") simp_all
    with e have "a' = b1 \<and> fa' = fb1 \<and> c' = c1 \<and> fc' = fc1 \<and> b' = m \<and> fb' = y" by auto
    then show ?thesis using y unfolding m_def by blast
  next
    case True
    with res u have e: "andThen (ndiv p q) (\<lambda>t.
              andThen (f (nadd b1 t)) (\<lambda>fb'. Inr (b1, fb1, nadd b1 t, fb', c1, fc1)))
        = Inr (a', fa', b', fb', c', fc')" by simp
    then obtain t where t: "ndiv p q = Inr t" by (cases "ndiv p q") simp_all
    with e have e': "andThen (f (nadd b1 t)) (\<lambda>fb'. Inr (b1, fb1, nadd b1 t, fb', c1, fc1))
        = Inr (a', fa', b', fb', c', fc')" by simp
    then obtain y where y: "f (nadd b1 t) = Inr y" by (cases "f (nadd b1 t)") simp_all
    with e' have r: "a' = b1 \<and> fa' = fb1 \<and> c' = c1 \<and> fc' = fc1 \<and> b' = nadd b1 t \<and> fb' = y"
      by auto
    show ?thesis
    proof (cases "nval q = 0")
      case z: True
      then have eq: "nval fa1 = nval fb1" by (auto simp: fq(2) split: if_splits)
      have "\<not> nfin t" by (rule ndiv_zero_not_finite [OF fp(1) fq(1) z t])
      then have "\<not> nfin (nadd b1 t)" by (rule nadd_not_finite [OF fin(3)])
      then show ?thesis using r y eq by blast
    next
      case nz: False
      then have ne: "nval fa1 \<noteq> nval fb1" by (auto simp: fq(2) split: if_splits)
      obtain t' where t': "ndiv p q = Inr t'" "nfin t'" "nval t' = nval p / nval q"
        using nfin_div [OF fp(1) fq(1) nz] by blast
      with t have ft: "nfin t" "nval t = nval p / nval q" by simp_all
      have fb: "nfin (nadd b1 t)" "nval (nadd b1 t) = nval b1 + nval p / nval q"
        using nfin_add [OF fin(3) ft(1)] ft(2) by simp_all
      have le: "nval p \<le> ((nval b1 + nval c1) / 2 - nval b1) * nval q"
        using True test fm(2) by simp
      have bt: "min (nval b1) ((nval b1 + nval c1) / 2) \<le> nval b1 + nval p / nval q
          \<and> nval b1 + nval p / nval q \<le> max (nval b1) ((nval b1 + nval c1) / 2)"
        using secant_between [OF pos le nz] .
      have "nval b1 + nval p / nval q
          = nval b1 - nval fb1 * (nval b1 - nval a1) / (nval fb1 - nval fa1)"
        using pq by simp
      then show ?thesis using r y ne bt fb by metis
    qed
  qed
qed

lemma dekkers_body_performs:
  assumes fin: "nfin a" "nfin fa" "nfin b" "nfin fb" "nfin c" "nfin fc"
    and sw: "dekkers_swap (dekkers_reset (a, fa, b, fb, c, fc)) = (a1, fa1, b1, fb1, c1, fc1)"
    and res: "dekkers_body f (a, fa, b, fb, c, fc) = Inr (a', fa', b', fb', c', fc')"
  shows "\<bar>nval fb1\<bar> \<le> \<bar>nval fc1\<bar> \<and> a' = b1 \<and> fa' = fb1 \<and> c' = c1 \<and> fc' = fc1 \<and> f b' = Inr fb' \<and>
         (b' = nmul (pyf 0.5) (nadd b1 c1) \<or>
          (nval fa1 \<noteq> nval fb1 \<and> nfin b'
           \<and> nval b' = nval b1 - nval fb1 * (nval b1 - nval a1) / (nval fb1 - nval fa1)
           \<and> min (nval b1) ((nval b1 + nval c1) / 2) \<le> nval b'
           \<and> nval b' \<le> max (nval b1) ((nval b1 + nval c1) / 2)) \<or>
          (nval fa1 = nval fb1 \<and> \<not> nfin b'))"
proof -
  have f1: "nfin a1" "nfin fa1" "nfin b1" "nfin fb1" "nfin c1" and sm: "\<bar>nval fb1\<bar> \<le> \<bar>nval fc1\<bar>"
    using dekkers_reset_swap_finite [OF fin sw] by simp_all
  have "dekkers_update f (a1, fa1, b1, fb1, c1, fc1) = Inr (a', fa', b', fb', c', fc')"
    using res sw by (simp add: dekkers_body_def)
  from dekkers_update_performs [OF f1 this] sm show ?thesis by simp
qed

lemma dekkers_secant_undefined:
  assumes "acc < 100"
  shows "dekkersMethod acc (\<lambda>x. Inr (nmul x (nsub x (pyf 100)))) (pyf 0) (pyf 100)
     = Some (Inl ZeroDivision)"
proof -
  have fa: "nmul (pyf 0) (nsub (pyf 0) (pyf 100)) = Py NZero"
    and fb: "nmul (pyf 100) (nsub (pyf 100) (pyf 100)) = Py (Fin 0)"
    by (simp_all add: num_defs fl_defs)
  have t: "\<not> ngt (nmul (Py NZero) (Py (Fin 0))) (pyf 0)"
    by (simp add: num_defs fl_defs)
  have g: "ngt (nabs (nsub (pyf 100) (pyf 0))) (pyf acc)"
    using assms by (simp add: num_defs fl_defs)
  have b: "dekkers_body (\<lambda>x. Inr (nmul x (nsub x (pyf 100))))
      (pyf 0, Py NZero, pyf 100, Py (Fin 0), pyf 0, Py NZero) = Inl ZeroDivision"
    by (simp add: dekkers_body_def Let_def num_defs fl_defs)
  show ?thesis
    by (simp add: dekkersMethod_def fa fb t dekkers_loop_step [OF g] b)
qed

text \<open>
  C6. The claim: every iteration of Dekker's method takes the secant step only if it lies
  within \<open>[b, m]\<close>, otherwise the midpoint, and then re-evaluates \<open>f\<close> at the new \<open>b\<close>.
  When \<open>fa = fb = 0\<close> the test \<open>p <= (m - b)*q\<close> reads \<open>0 <= 0\<close> and the step taken
  is \<open>0/0\<close>: with the objective \<open>x*(x - 100)\<close> on the default bracket \<open>[0, 100]\<close> the
  first iteration ends in a division by zero.
\<close>

theorem dekkers_zero_over_zero:
  "dekkersMethod (1 / 10 ^ 8) (\<lambda>x. Inr (nmul x (nsub x (pyf 100)))) (pyf 0) (pyf 100)
     = Some (Inl ZeroDivision)"
  by (rule dekkers_secant_undefined) simp

section \<open>Construction and the selection of the price method\<close>

text \<open>
  C7. The claim: a non-positive time to expiry, strike or \<open>sigma\<close> is rejected before any
  formula is evaluated. The factory builds a Future with strike -100 and 0 days, and the
  Future/Bachelier call price at \<open>sigma = -1\<close> is a value.
\<close>

theorem no_input_validation_counterexample:
  "\<not> isl (getProduct ''Future'' 1 100 (- 100) 0 0 ''Call'' ''Bachelier'')
   \<and> \<not> isl (callOptionPriceBachelier (Future_init 1 100 100 365 0 ''Call'' ''Bachelier'') (pyf (- 1)))"
  using future_bachelier_value [of "Future_init 1 100 100 365 0 ''Call'' ''Bachelier''" "- 1"]
  by (simp add: getProduct_simps init_simps)

text \<open>
  C7, as the code has it. No input is checked: the factory builds the Stock and the Future
  object from any numbers and stores the strike and \<open>days / 365\<close> as they come; the
  Future/Bachelier call price is the value of its formula at every \<open>sigma\<close> other than 0,
  negative ones included, when the time to expiry is positive; and a call price method
  fails only with \<open>ZeroDivisionError\<close>, which the two divisions by a Python number raise
  (\<open>X / K\<close> at a zero strike, \<open>sigma**2 / r\<close> at a zero rate). \<open>np.log\<close> and
  \<open>np.sqrt\<close> outside their domain and a division by a \<open>float64\<close> zero give \<open>nan\<close> or
  an infinity, and the price is computed from it.
\<close>

theorem no_input_validation:
  "getProduct ''Stock'' v x k d rt ot mt = Inr (Stock_init v x k d rt ot mt)
   \<and> getProduct ''Future'' v x k d rt ot mt = Inr (Future_init v x k d rt ot mt)
   \<and> K (Stock_init v x k d rt ot mt) = k \<and> tau (Stock_init v x k d rt ot mt) = d / 365
   \<and> K (Future_init v x k d rt ot mt) = k \<and> tau (Future_init v x k d rt ot mt) = d / 365
   \<and> (product self = Future \<and> 0 < tau self \<and> s \<noteq> 0 \<longrightarrow>
        callOptionPriceBachelier self (pyf s) =
          Inr (Np (Fin ((X self - K self) * norm_cdf ((X self - K self) / (s * sqrt (tau self)))
               + s * sqrt (tau self) * norm_pdf ((X self - K self) / (s * sqrt (tau self)))))))
   \<and> (\<forall>e. callOptionPriceBlackScholes self sigma = Inl e \<or> callOptionPriceBachelier self sigma = Inl e
          \<longrightarrow> e = ZeroDivision)"
  using call_failures [of self sigma] future_bachelier_value [of self s]
  by (auto simp: getProduct_simps init_simps field_simps_init)

text \<open>
  A Future with strike -100 and 0 days; the Future/Bachelier call price at
  \<open>sigma = -1\<close>; a Future with strike 0 under Black-Scholes.
\<close>

theorem no_input_validation_witness:
  "getProduct ''Future'' 1 100 (- 100) 0 0 ''Call'' ''Bachelier''
      = Inr (Future_init 1 100 (- 100) 0 0 ''Call'' ''Bachelier'')
   \<and> K (Future_init 1 100 (- 100) 0 0 ''Call'' ''Bachelier'') = - 100
   \<and> tau (Future_init 1 100 (- 100) 0 0 ''Call'' ''Bachelier'') = 0
   \<and> product (Future_init 1 100 100 365 0 ''Call'' ''Bachelier'') = Future
   \<and> 0 < tau (Future_init 1 100 100 365 0 ''Call'' ''Bachelier'') \<and> (- 1 :: real) \<noteq> 0
   \<and> callOptionPriceBachelier (Future_init 1 100 100 365 0 ''Call'' ''Bachelier'') (pyf (- 1))
        = Inr (Np (Fin (- norm_pdf 0)))
   \<and> callOptionPriceBlackScholes (Future_init 1 100 0 365 0 ''Call'' ''BlackScholes'') (pyf 1)
        = Inl ZeroDivision"
  using no_input_validation [of 1 100 "- 100" 0 0 "''Call''" "''Bachelier''"
      "Future_init 1 100 100 365 0 ''Call'' ''Bachelier''" "- 1" "pyf 1"]
    no_input_validation [of 1 100 "- 100" 0 0 "''Call''" "''Bachelier''"
      "Future_init 1 100 0 365 0 ''Call'' ''BlackScholes''" 1 "pyf 1"]
  by (simp add: init_simps field_simps_init callOptionPriceBlackScholes_def
        Future_callOptionPriceBlackScholes_def num_defs is_zero_def)

text \<open>
  C8. The claim: an unknown side or convention makes the construction fail. The factory
  builds a Stock with side \<open>Straddle\<close> and convention \<open>Heston\<close>.
\<close>

theorem unknown_names_counterexample:
  "\<not> isl (getProduct ''Stock'' 1 100 100 30 0 ''Straddle'' ''Heston'')"
  by (simp add: getProduct_simps)

text \<open>
  C8, as the code has it. A product name other than \<open>Stock\<close> and \<open>Future\<close> fails in the
  factory with \<open>KeyError\<close>. The side and the convention are not checked at construction:
  the object is built with whatever strings it is given. They are checked by
  \<open>getOptionPrice\<close>, the convention first: an unknown convention is
  \<open>NameError("Model Type not supported")\<close>, a known convention with an unknown side is
  \<open>NameError("Option Type not recognized")\<close>; \<open>impliedVol\<close> with a root finder set ends
  in that error, at the first evaluation of the objective.
\<close>

theorem unknown_names:
  "(name \<notin> {''Stock'', ''Future''} \<longrightarrow> getProduct name v x k d rt ot mt = Inl (KeyError name))
   \<and> (name \<in> {''Stock'', ''Future''} \<longrightarrow>
        (\<exists>obj. getProduct name v x k d rt ot mt = Inr obj
               \<and> getOptionType obj = ot \<and> getModelType obj = mt))
   \<and> (getModelType self \<notin> {''BlackScholes'', ''Bachelier''} \<longrightarrow>
        getOptionPrice self = Inl (NameError ''Model Type not supported''))
   \<and> (getModelType self \<in> {''BlackScholes'', ''Bachelier''}
        \<and> getOptionType self \<notin> {''Call'', ''Put''} \<longrightarrow>
        getOptionPrice self = Inl (NameError ''Option Type not recognized''))
   \<and> (getOptionPrice self = Inl e \<and> getRootFindMethod rootFind = Some m \<longrightarrow>
        impliedVol self rootFind = Some (Inl e))"
proof -
  have "impliedVol self rootFind = Some (Inl e)"
    if "getOptionPrice self = Inl e" "getRootFindMethod rootFind = Some m"
    using that
    by (cases m) (simp_all add: impliedVol_def call_method_def modelMisPrice_def
          dekkersMethod_def bisectionMethod_def)
  then show ?thesis
    by (auto simp: getProduct_simps field_simps_init getOptionPrice_def)
qed

text \<open>
  The product name \<open>Swap\<close>; a Stock with side \<open>Straddle\<close> and convention \<open>Heston\<close>,
  and one with side \<open>Straddle\<close> and convention \<open>Bachelier\<close>.
\<close>

theorem unknown_names_witness:
  "''Swap'' \<notin> {''Stock'', ''Future''}
   \<and> getProduct ''Swap'' 1 100 100 30 0 ''Call'' ''Bachelier'' = Inl (KeyError ''Swap'')
   \<and> ''Stock'' \<in> {''Stock'', ''Future''}
   \<and> getProduct ''Stock'' 1 100 100 30 0 ''Straddle'' ''Heston''
       = Inr (Stock_init 1 100 100 30 0 ''Straddle'' ''Heston'')
   \<and> getModelType (Stock_init 1 100 100 30 0 ''Straddle'' ''Heston'') \<notin> {''BlackScholes'', ''Bachelier''}
   \<and> getOptionPrice (Stock_init 1 100 100 30 0 ''Straddle'' ''Heston'')
       = Inl (NameError ''Model Type not supported'')
   \<and> getRootFindMethod \<lparr>accuracy = 1 / 10 ^ 8, rootFindMethod = Some dekkers\<rparr> = Some dekkers
   \<and> impliedVol (Stock_init 1 100 100 30 0 ''Straddle'' ''Heston'')
        \<lparr>accuracy = 1 / 10 ^ 8, rootFindMethod = Some dekkers\<rparr>
       = Some (Inl (NameError ''Model Type not supported''))
   \<and> getModelType (Stock_init 1 100 100 30 0 ''Straddle'' ''Bachelier'') \<in> {''BlackScholes'', ''Bachelier''}
   \<and> getOptionType (Stock_init 1 100 100 30 0 ''Straddle'' ''Bachelier'') \<notin> {''Call'', ''Put''}
   \<and> getOptionPrice (Stock_init 1 100 100 30 0 ''Straddle'' ''Bachelier'')
       = Inl (NameError ''Option Type not recognized'')"
  using unknown_names [of "''Swap''" 1 100 100 30 0 "''Call''" "''Bachelier''"
           "Stock_init 1 100 100 30 0 ''Straddle'' ''Heston''"
           "NameError ''Model Type not supported''"
           "\<lparr>accuracy = 1 / 10 ^ 8, rootFindMethod = Some dekkers\<rparr>" dekkers]
        unknown_names [of "''Stock''" 1 100 100 30 0 "''Straddle''" "''Heston''"
           "Stock_init 1 100 100 30 0 ''Straddle'' ''Bachelier''"
           "NameError ''Option Type not recognized''"
           "\<lparr>accuracy = 1 / 10 ^ 8, rootFindMethod = Some dekkers\<rparr>" dekkers]
  by (simp add: field_simps_init getRootFindMethod_def getProduct_simps)

section \<open>The bracket of the implied-volatility solve\<close>

text \<open>
  An at-the-money Future under Bachelier, one year to expiry, zero rate: the objective
  is \<open>sigma * norm.pdf(0) - V_mkt\<close> for \<open>sigma\<close> other than 0, and at \<open>sigma = 0\<close> the
  formula divides \<open>X - K = 0\<close> by \<open>sigma * np.sqrt(tau) = 0\<close>, a \<open>float64\<close>: the
  quotient is \<open>nan\<close> and so is the objective. With \<open>nan\<close> at the lower end \<open>a = 0\<close>,
  the tests \<open>f(a) * f(b) > 0\<close> and \<open>f(a) * f(c) > 0\<close> are false: bisection keeps the
  left half in every pass, until it meets a zero of the objective or the bracket is no
  wider than the tolerance.
\<close>

lemma atm_future_misprice:
  "modelMisPrice (Future_init v 100 100 365 0 ''Call'' ''Bachelier'') (pyf s)
      = Inr (Np (if s = 0 then NaN else Fin (s * norm_pdf 0 - v)))"
proof (cases "s = 0")
  case True
  then show ?thesis
    by (simp add: modelMisPrice_def getOptionPrice_def callOptionPriceBachelier_def
        Future_callOptionPriceBachelier_def init_simps field_simps_init num_defs fl_defs)
next
  case False
  then show ?thesis
    using future_bachelier_value [of "Future_init v 100 100 365 0 ''Call'' ''Bachelier''" s]
    by (simp add: modelMisPrice_def getOptionPrice_def init_simps field_simps_init
          num_defs fl_defs)
qed

lemma bisection_nan_left:
  assumes nan: "f (pyf 0) = Inr (Np NaN)"
    and fin: "\<And>s. s \<noteq> 0 \<Longrightarrow> f (pyf s) = Inr (Np (Fin (g s)))"
    and h: "0 < h"
    and nz: "\<forall>j. 1 \<le> j \<and> j \<le> n \<longrightarrow> g (h / 2 ^ j) \<noteq> 0"
    and go: "\<forall>j<n. acc < h / 2 ^ j"
    and stop: "\<not> acc < h / 2 ^ n"
    and c0: "n = 0 \<longrightarrow> c = Some (pyf h)"
  shows "bisection_loop acc f (pyf 0) (pyf h) c = Some (Inr (pyf (h / 2 ^ n)))"
  using h nz go stop c0
proof (induction n arbitrary: h c)
  case 0
  then have "\<not> ngt (nabs (nsub (pyf h) (pyf 0))) (pyf acc)"
    by (simp add: continue_py)
  then show ?case using 0 by (simp add: bisection_loop_exit)
next
  case (Suc n)
  have cont: "ngt (nabs (nsub (pyf h) (pyf 0))) (pyf acc)"
    using Suc.prems(1,3) by (auto simp: continue_py)
  have mid: "nmul (pyf 0.5) (nadd (pyf 0) (pyf h)) = pyf (h / 2)"
    using midpoint_py [of 0 h] by simp
  have h2: "h / 2 \<noteq> 0" "0 < h / 2" using Suc.prems(1) by simp_all
  have g1: "g (h / 2) \<noteq> 0" using Suc.prems(2) by (auto dest: spec [of _ 1])
  have fm: "f (pyf (h / 2)) = Inr (Np (Fin (g (h / 2))))" using fin [OF h2(1)] .
  have ne: "\<not> neq (Np (Fin (g (h / 2)))) (pyf 0)"
    using g1 by (auto simp: num_defs fl_defs)
  have sh: "h / 2 / 2 ^ j = h / 2 ^ Suc j" for j by simp
  have ih: "bisection_loop acc f (pyf 0) (pyf (h / 2)) (Some (pyf (h / 2)))
      = Some (Inr (pyf (h / 2 / 2 ^ n)))"
  proof (rule Suc.IH [OF h2(2)])
    show "\<forall>j. 1 \<le> j \<and> j \<le> n \<longrightarrow> g (h / 2 / 2 ^ j) \<noteq> 0"
      using Suc.prems(2) unfolding sh by auto
    show "\<forall>j<n. acc < h / 2 / 2 ^ j"
      using Suc.prems(3) unfolding sh by auto
    show "\<not> acc < h / 2 / 2 ^ n"
      using Suc.prems(4) unfolding sh .
    show "n = 0 \<longrightarrow> Some (pyf (h / 2)) = Some (pyf (h / 2))" by simp
  qed
  show ?case
    unfolding bisection_loop_step [OF cont] mid fm
    using ne nan nan_product ih by simp
qed

lemma pow2_not_100: "(2::real) ^ j \<noteq> 100"
proof (cases "j \<le> 6")
  case True
  then have "(2::real) ^ j \<le> 2 ^ 6" by (intro power_increasing) simp_all
  then show ?thesis by simp
next
  case False
  then have "(2::real) ^ 7 \<le> 2 ^ j" by (intro power_increasing) simp_all
  then show ?thesis by simp
qed

lemma pow2_le_33: "j < 34 \<Longrightarrow> (2::real) ^ j \<le> 2 ^ 33"
  by (intro power_increasing) simp_all

text \<open>
  C9, as the code has it. \<open>impliedVol\<close> takes the option and the root finder only, and
  solves over the default bracket of the root finder's methods, \<open>[0, 100]\<close>.
\<close>

theorem impliedVol_fixed_bracket:
  "impliedVol self rootFind = solveImpliedVol self rootFind (pyf 0) (pyf 100)"
  by (simp add: impliedVol_def solveImpliedVol_def)

text \<open>
  C9. The claim: the solve runs over the bracket the caller chooses. \<open>impliedVol\<close> has no
  bracket argument. For the at-the-money Future with market price \<open>25 * norm.pdf(0)\<close>
  and the bisection method, \<open>impliedVol\<close> returns 25, the second midpoint of
  \<open>[0, 100]\<close>, where the objective is zero; the solve over the bracket \<open>[1, 2]\<close>, where
  the objective is negative at both ends, is \<open>nan\<close>. The result of \<open>impliedVol\<close> is
  not that of the solve over \<open>[1, 2]\<close>.
\<close>

theorem impliedVol_bracket_counterexample:
  "impliedVol (Future_init (25 * norm_pdf 0) 100 100 365 0 ''Call'' ''Bachelier'')
      \<lparr>accuracy = 1 / 10 ^ 8, rootFindMethod = Some bisection\<rparr> = Some (Inr (pyf 25))
   \<and> solveImpliedVol (Future_init (25 * norm_pdf 0) 100 100 365 0 ''Call'' ''Bachelier'')
      \<lparr>accuracy = 1 / 10 ^ 8, rootFindMethod = Some bisection\<rparr> (pyf 1) (pyf 2)
      = Some (Inr (Py NaN))
   \<and> impliedVol (Future_init (25 * norm_pdf 0) 100 100 365 0 ''Call'' ''Bachelier'')
      \<lparr>accuracy = 1 / 10 ^ 8, rootFindMethod = Some bisection\<rparr>
     \<noteq> solveImpliedVol (Future_init (25 * norm_pdf 0) 100 100 365 0 ''Call'' ''Bachelier'')
      \<lparr>accuracy = 1 / 10 ^ 8, rootFindMethod = Some bisection\<rparr> (pyf 1) (pyf 2)"
proof -
  define w :: real where "w = 25 * norm_pdf 0"
  define f where "f = modelMisPrice (Future_init w 100 100 365 0 ''Call'' ''Bachelier'')"
  define acc :: real where "acc = 1 / 10 ^ 8"
  have nan: "f (pyf 0) = Inr (Np NaN)"
    by (simp add: f_def atm_future_misprice)
  have fin: "f (pyf s) = Inr (Np (Fin ((s - 25) * norm_pdf 0)))" if "s \<noteq> 0" for s
    using that by (simp add: f_def w_def atm_future_misprice algebra_simps)
  have f100: "f (pyf 100) = Inr (Np (Fin ((100 - 25) * norm_pdf 0)))"
    and f50: "f (pyf 50) = Inr (Np (Fin ((50 - 25) * norm_pdf 0)))"
    and f25: "f (pyf 25) = Inr (Np (Fin ((25 - 25) * norm_pdf 0)))"
    and f1: "f (pyf 1) = Inr (Np (Fin ((1 - 25) * norm_pdf 0)))"
    and f2: "f (pyf 2) = Inr (Np (Fin ((2 - 25) * norm_pdf 0)))"
    by (rule fin, simp)+
  have c1: "ngt (nabs (nsub (pyf 100) (pyf 0))) (pyf acc)"
    and c2: "ngt (nabs (nsub (pyf 50) (pyf 0))) (pyf acc)"
    by (simp_all add: continue_py acc_def)
  have m1: "nmul (pyf 0.5) (nadd (pyf 0) (pyf 100)) = pyf 50"
    and m2: "nmul (pyf 0.5) (nadd (pyf 0) (pyf 50)) = pyf 25"
    using midpoint_py [of 0 100] midpoint_py [of 0 50] by simp_all
  have n50: "\<not> neq (Np (Fin ((50 - 25) * norm_pdf 0))) (pyf 0)"
    and e25: "neq (Np (Fin ((25 - 25) * norm_pdf 0))) (pyf 0)"
    using norm_pdf_pos [of 0] by (simp_all add: num_defs fl_defs)
  have l2: "bisection_loop acc f (pyf 0) (pyf 50) (Some (pyf 50)) = Some (Inr (pyf 25))"
    by (simp only: bisection_loop_step [OF c2] m2 f25 e25 sum.case if_True)
  have l1: "bisection_loop acc f (pyf 0) (pyf 100) None = Some (Inr (pyf 25))"
    by (simp only: bisection_loop_step [OF c1] m1 f50 n50 nan nan_product l2 sum.case if_False)
  have a: "bisectionMethod acc f (pyf 0) (pyf 100) = Some (Inr (pyf 25))"
    by (simp only: bisectionMethod_def nan f100 nan_product l1 sum.case if_False)
  have pos: "ngt (nmul (Np (Fin ((1 - 25) * norm_pdf 0))) (Np (Fin ((2 - 25) * norm_pdf 0)))) (pyf 0)"
    using norm_pdf_pos [of 0]
    by (simp add: num_defs fl_defs zero_less_mult_iff mult_le_0_iff not_le)
  have b: "bisectionMethod acc f (pyf 1) (pyf 2) = Some (Inr (Py NaN))"
    by (simp only: bisectionMethod_def f1 f2 pos sum.case if_True)
  have "pyf 25 \<noteq> Py NaN" by (simp add: pyf_def)
  then show ?thesis
    using a b
    by (simp add: impliedVol_def solveImpliedVol_def getRootFindMethod_def call_method_def
          f_def w_def acc_def)
qed

section \<open>The round trip through the default bracket\<close>

text \<open>
  C2. The claim: solving for the implied volatility of the price computed at \<open>sigma0\<close>
  returns \<open>sigma0\<close> within the tolerance. For the at-the-money Future under Bachelier
  (spot 100, strike 100, 365 days, zero rate) the call price at \<open>sigma0 = 1\<close> is
  \<open>norm.pdf(0)\<close>. With that market price, the default tolerance \<open>1e-8\<close> and the
  bisection method, the objective is \<open>nan\<close> at the lower end 0 of the default bracket;
  the loop keeps \<open>a = 0\<close>, halves \<open>b\<close> 34 times and returns \<open>100 / 2**34\<close>, about
  \<open>5.8e-9\<close>, which is not within \<open>1e-8\<close> of 1.
\<close>

theorem atm_round_trip_fails:
  "callOptionPriceBachelier (Future_init (norm_pdf 0) 100 100 365 0 ''Call'' ''Bachelier'') (pyf 1)
     = Inr (Np (Fin (V_mkt (Future_init (norm_pdf 0) 100 100 365 0 ''Call'' ''Bachelier''))))
   \<and> impliedVol (Future_init (norm_pdf 0) 100 100 365 0 ''Call'' ''Bachelier'')
        \<lparr>accuracy = 1 / 10 ^ 8, rootFindMethod = Some bisection\<rparr>
       = Some (Inr (pyf (100 / 2 ^ 34)))
   \<and> \<not> \<bar>100 / 2 ^ 34 - 1\<bar> \<le> (1 / 10 ^ 8 :: real)"
proof -
  let ?o = "Future_init (norm_pdf 0) 100 100 365 0 ''Call'' ''Bachelier''"
  define f where "f = modelMisPrice ?o"
  define acc :: real where "acc = 1 / 10 ^ 8"
  have c: "callOptionPriceBachelier ?o (pyf 1) = Inr (Np (Fin (V_mkt ?o)))"
    using future_bachelier_value [of ?o 1] by (simp add: init_simps field_simps_init)
  have nan: "f (pyf 0) = Inr (Np NaN)"
    by (simp add: f_def atm_future_misprice)
  have fin: "f (pyf s) = Inr (Np (Fin ((s - 1) * norm_pdf 0)))" if "s \<noteq> 0" for s
    using that by (simp add: f_def atm_future_misprice algebra_simps)
  have nz: "\<forall>j. 1 \<le> j \<and> j \<le> 34 \<longrightarrow> (100 / 2 ^ j - 1) * norm_pdf 0 \<noteq> 0"
    using norm_pdf_pos [of 0] pow2_not_100 by (auto simp: field_simps)
  have go: "\<forall>j<34. acc < 100 / 2 ^ j"
  proof (intro allI impI)
    fix j :: nat assume "j < 34"
    then have "(2::real) ^ j \<le> 2 ^ 33" by (rule pow2_le_33)
    then have "(2::real) ^ j < 10 ^ 10" by simp
    then show "acc < 100 / 2 ^ j" by (simp add: acc_def field_simps)
  qed
  have stop: "\<not> acc < 100 / 2 ^ 34" by (simp add: acc_def)
  have loop: "bisection_loop acc f (pyf 0) (pyf 100) None = Some (Inr (pyf (100 / 2 ^ 34)))"
    by (rule bisection_nan_left [OF nan fin _ nz go stop]) simp_all
  have f100: "f (pyf 100) = Inr (Np (Fin ((100 - 1) * norm_pdf 0)))"
    by (rule fin) simp
  have "bisectionMethod acc f (pyf 0) (pyf 100) = Some (Inr (pyf (100 / 2 ^ 34)))"
    by (simp add: bisectionMethod_def nan f100 nan_product loop)
  then have "impliedVol ?o \<lparr>accuracy = 1 / 10 ^ 8, rootFindMethod = Some bisection\<rparr>
       = Some (Inr (pyf (100 / 2 ^ 34)))"
    by (simp add: impliedVol_def getRootFindMethod_def call_method_def f_def acc_def)
  moreover have "\<not> \<bar>100 / 2 ^ 34 - 1\<bar> \<le> (1 / 10 ^ 8 :: real)" by simp
  ultimately show ?thesis using c by blast
qed

section \<open>Stock options under Bachelier at a zero rate\<close>

text \<open>
  C10. For a Stock object with \<open>r = 0\<close> the Bachelier call price divides by zero in
  \<open>sigma**2 / self.r\<close>, at every Python number \<open>sigma\<close> (the first point at which a root
  finder evaluates the objective is the int 0); so does the put price, and so does the
  implied-volatility solve of a Stock/Bachelier call or put with any root finder set.
\<close>

theorem stock_bachelier_zero_rate:
  assumes "product self = Stock" and "r self = 0"
  shows "callOptionPriceBachelier self (Py s) = Inl ZeroDivision
         \<and> putOptionPriceBachelier self (Py s) = Inl ZeroDivision
         \<and> (getModelType self = ''Bachelier'' \<and> getOptionType self \<in> {''Call'', ''Put''}
              \<and> getRootFindMethod rootFind = Some m
            \<longrightarrow> impliedVol self rootFind = Some (Inl ZeroDivision))"
proof -
  have c: "callOptionPriceBachelier self (Py t) = Inl ZeroDivision" for t
    using assms
    by (simp add: callOptionPriceBachelier_def Stock_callOptionPriceBachelier_def Let_def
          num_defs is_zero_def)
  have p: "putOptionPriceBachelier self (Py t) = Inl ZeroDivision" for t
    using assms c
    by (simp add: putOptionPriceBachelier_def Stock_putOptionPriceBachelier_def)
  have "modelMisPrice self (Py t) = Inl ZeroDivision"
    if "getModelType self = ''Bachelier''" "getOptionType self \<in> {''Call'', ''Put''}" for t
    using that c p by (auto simp: modelMisPrice_def getOptionPrice_def)
  then have "impliedVol self rootFind = Some (Inl ZeroDivision)"
    if "getModelType self = ''Bachelier''" "getOptionType self \<in> {''Call'', ''Put''}"
       "getRootFindMethod rootFind = Some m"
    using that
    by (cases m) (simp_all add: impliedVol_def call_method_def dekkersMethod_def
          bisectionMethod_def pyf_def)
  then show ?thesis using c p by blast
qed

text \<open>
  Spot 100, strike 100, 30 days, zero rate, \<open>sigma = 0.2\<close>: every documented
  precondition holds.
\<close>

theorem stock_bachelier_zero_rate_witness:
  "0 < tau (Stock_init 4 100 100 30 0 ''Call'' ''Bachelier'')
   \<and> 0 < K (Stock_init 4 100 100 30 0 ''Call'' ''Bachelier'')
   \<and> (0::real) < 1 / 5
   \<and> callOptionPriceBachelier (Stock_init 4 100 100 30 0 ''Call'' ''Bachelier'') (pyf (1 / 5))
       = Inl ZeroDivision
   \<and> impliedVol (Stock_init 4 100 100 30 0 ''Call'' ''Bachelier'')
       \<lparr>accuracy = 1 / 10 ^ 8, rootFindMethod = Some dekkers\<rparr> = Some (Inl ZeroDivision)"
  using stock_bachelier_zero_rate [of "Stock_init 4 100 100 30 0 ''Call'' ''Bachelier''"
          "Fin (1 / 5)" "\<lparr>accuracy = 1 / 10 ^ 8, rootFindMethod = Some dekkers\<rparr>" dekkers]
  by (simp add: init_simps field_simps_init getRootFindMethod_def pyf_def)

end
